theory Spec2Isabelle
  imports Main "HOL-Library.Word"
begin

unbundle bit_operations_syntax

section \<open>The MIPS simulator backend (class MIPSSimulator), embedded in HOL\<close>

text \<open>
  The embedding follows the backend source function by function. Conventions:
  \<^item> A JavaScript number that is always an integer is an \<open>int\<close>; a number that went through
    \<open>>>> 0\<close>, a bitwise operator or a typed array is a \<open>32 word\<close> (or \<open>8 word\<close>); a number that
    may be \<open>NaN\<close> or infinite is an \<open>int option\<close> with \<open>None\<close> for every value that is not a
    finite number: the source passes each such value, or its sum with a register, through a
    32-bit conversion, which turns \<open>NaN\<close> and both infinities into 0. A number read from the
    text is the double nearest to the integer written (\<open>numberOf\<close>), and the sum of a register
    and an offset is rounded to a double again.
  \<^item> A property that may be \<open>undefined\<close> is an \<open>option\<close> with \<open>None\<close> for \<open>undefined\<close>.
  \<^item> A thrown \<open>Error\<close> is a value of type \<open>error\<close>; its message text is not modelled, only
    the throwing site.
  \<^item> Program text is ASCII; a \<open>string\<close> is a list of characters.
\<close>

type_synonym u32 = "32 word"
type_synonym u8 = "8 word"

datatype error =
    InvalidRegister              \<comment> \<open>\<open>Invalid register: ...\<close>\<close>
  | InvalidArguments             \<comment> \<open>\<open>Invalid arguments for ...\<close>\<close>
  | InvalidMemoryAccessFormat    \<comment> \<open>\<open>Invalid memory access format\<close>\<close>
  | UnknownInstruction           \<comment> \<open>\<open>Unknown instruction: ...\<close>\<close>
  | UnknownIType                 \<comment> \<open>\<open>Unknown I-type instruction: ...\<close>\<close>
  | UnknownJType                 \<comment> \<open>\<open>Unknown J-type instruction: ...\<close>\<close>
  | UndefinedLabel               \<comment> \<open>\<open>Undefined label: ...\<close>\<close>
  | TypeError                    \<comment> \<open>a method call on a value that has no such method\<close>
  | InvalidInstruction           \<comment> \<open>\<open>Invalid instruction\<close>\<close>
  | UnimplementedInstruction     \<comment> \<open>\<open>Unimplemented instruction: ...\<close>\<close>

definition bindE :: "error + 'a \<Rightarrow> ('a \<Rightarrow> error + 'b) \<Rightarrow> error + 'b" where
  "bindE m f = (case m of Inl e \<Rightarrow> Inl e | Inr x \<Rightarrow> f x)"

subsection \<open>String helpers of the JavaScript runtime\<close>

text \<open>White space as \<open>trim\<close> and the regular expression class \<open>\s\<close> see it (ASCII part).\<close>

definition isSpace :: "char \<Rightarrow> bool" where
  "isSpace c = (c = CHR '' '' \<or> c = CHR 0x09 \<or> c = CHR 0x0A \<or> c = CHR 0x0B
                \<or> c = CHR 0x0C \<or> c = CHR 0x0D)"

definition trim :: "string \<Rightarrow> string" where
  "trim s = rev (dropWhile isSpace (rev (dropWhile isSpace s)))"

definition isDigit :: "char \<Rightarrow> bool" where
  "isDigit c = (48 \<le> (of_char c :: nat) \<and> (of_char c :: nat) \<le> 57)"

definition isUpper :: "char \<Rightarrow> bool" where
  "isUpper c = (65 \<le> (of_char c :: nat) \<and> (of_char c :: nat) \<le> 90)"

definition isLower :: "char \<Rightarrow> bool" where
  "isLower c = (97 \<le> (of_char c :: nat) \<and> (of_char c :: nat) \<le> 122)"

definition toLowerChar :: "char \<Rightarrow> char" where
  "toLowerChar c = (if isUpper c then char_of ((of_char c :: nat) + 32) else c)"

definition toLowerCase :: "string \<Rightarrow> string" where
  "toLowerCase s = map toLowerChar s"

definition startsWith :: "string \<Rightarrow> string \<Rightarrow> bool" where
  "startsWith s p = (take (length p) s = p)"

text \<open>\<open>s.replace(/,$/, '')\<close>: one trailing comma is removed.\<close>

definition stripTrailingComma :: "string \<Rightarrow> string" where
  "stripTrailingComma s = (if s \<noteq> [] \<and> last s = CHR '','' then butlast s else s)"

text \<open>\<open>text.split('\n')\<close>: the pieces between line feeds, at least one piece.\<close>

fun splitLinesFrom :: "string \<Rightarrow> string \<Rightarrow> string list" where
  "splitLinesFrom cur [] = [rev cur]"
| "splitLinesFrom cur (c # cs) =
     (if c = CHR 0x0A then rev cur # splitLinesFrom [] cs else splitLinesFrom (c # cur) cs)"

definition splitLines :: "string \<Rightarrow> string list" where
  "splitLines s = splitLinesFrom [] s"

text \<open>\<open>line.match(/\S+/g) || []\<close>: the maximal runs of characters that are not white space.\<close>

fun tokensFrom :: "string \<Rightarrow> string \<Rightarrow> string list" where
  "tokensFrom cur [] = (if cur = [] then [] else [rev cur])"
| "tokensFrom cur (c # cs) =
     (if isSpace c then (if cur = [] then tokensFrom [] cs else rev cur # tokensFrom [] cs)
      else tokensFrom (c # cur) cs)"

definition tokens :: "string \<Rightarrow> string list" where
  "tokens s = tokensFrom [] s"

text \<open>
  \<open>parseInt(s, radix)\<close>: leading white space, an optional sign, for radix 16 an optional
  \<open>0x\<close>/\<open>0X\<close>, then the longest run of digits of the radix; \<open>NaN\<close> when that run is empty,
  otherwise the Number value of the signed integer the digits denote.
\<close>

definition digitValue :: "char \<Rightarrow> nat option" where
  "digitValue c =
     (if isDigit c then Some ((of_char c :: nat) - 48)
      else if isLower c then Some ((of_char c :: nat) - 87)
      else if isUpper c then Some ((of_char c :: nat) - 55)
      else None)"

definition isDigitOf :: "nat \<Rightarrow> char \<Rightarrow> bool" where
  "isDigitOf radix c = (case digitValue c of None \<Rightarrow> False | Some d \<Rightarrow> d < radix)"

definition digitsValue :: "nat \<Rightarrow> string \<Rightarrow> nat" where
  "digitsValue radix ds = foldl (\<lambda>acc c. acc * radix + the (digitValue c)) 0 ds"

text \<open>The number of binary digits of a positive integer.\<close>

function bitLength :: "int \<Rightarrow> nat" where
  "bitLength n = (if n \<le> 0 then 0 else Suc (bitLength (n div 2)))"
  by pat_completeness auto
termination
  by (relation "measure nat") auto

declare bitLength.simps [simp del]

text \<open>
  The Number value of a mathematical integer: the integer itself below \<open>2^53\<close> in magnitude,
  otherwise the nearest integer with a 53-bit significand, a tie going to the even
  significand; \<open>None\<close> when the result is infinite (from \<open>2^1024\<close> on). For decimal text of
  more than 20 significant digits the language standard also allows an implementation to
  read the later digits as 0; the model rounds the exact value.
\<close>

definition numberOf :: "int \<Rightarrow> int option" where
  "numberOf n =
     (if \<bar>n\<bar> < 2 ^ 53 then Some n
      else
        (let m = \<bar>n\<bar>;
             e = bitLength m - 53;
             q = m div 2 ^ e;
             r = m mod 2 ^ e;
             q' = (if 2 * r > 2 ^ e \<or> (2 * r = 2 ^ e \<and> odd q) then q + 1 else q)
         in if q' * 2 ^ e \<ge> 2 ^ 1024 then None
            else Some (sgn n * (q' * 2 ^ e))))"

definition parseInt :: "string \<Rightarrow> nat \<Rightarrow> int option" where
  "parseInt s radix =
     (let s1 = dropWhile isSpace s;
          neg = startsWith s1 ''-'';
          s2 = (if startsWith s1 ''-'' \<or> startsWith s1 ''+'' then tl s1 else s1);
          s3 = (if radix = 16 \<and> (startsWith s2 ''0x'' \<or> startsWith s2 ''0X'') then drop 2 s2 else s2);
          ds = takeWhile (isDigitOf radix) s3
      in if ds = [] then None
         else numberOf (if neg then - int (digitsValue radix ds) else int (digitsValue radix ds)))"

subsection \<open>Operands and instructions\<close>

text \<open>
  An operand produced by \<open>parseLine\<close> is a raw token or the object
  \<open>{ type: 'offset_reg', offset, reg }\<close>, whose \<open>offset\<close> is the number that \<open>parseInt\<close>
  returned. \<open>args[k]\<close> past the end is \<open>undefined\<close>.
\<close>

datatype arg = Str string | OffsetReg "int option" string

definition argAt :: "arg list \<Rightarrow> nat \<Rightarrow> arg option" where
  "argAt as k = (if k < length as then Some (as ! k) else None)"

text \<open>
  A stored instruction: the parsed line's \<open>mnemonic\<close>, \<open>args\<close> and \<open>label\<close>, plus \<open>binary\<close>
  and \<open>address\<close>. The field \<open>originalLine\<close> is display text for the listing and is left out.
\<close>

record instr =
  mnemonic :: string
  args :: "arg list"
  label :: "string option"
  binary :: u32
  address :: int

datatype parsedLine = PLabel string | PInstruction string "arg list" "string option"

subsection \<open>parseRegister and parseImmediate\<close>

definition regNames :: "(string \<times> nat) list" where
  "regNames =
     [(''$zero'', 0), (''$at'', 1), (''$v0'', 2), (''$v1'', 3),
      (''$a0'', 4), (''$a1'', 5), (''$a2'', 6), (''$a3'', 7),
      (''$t0'', 8), (''$t1'', 9), (''$t2'', 10), (''$t3'', 11),
      (''$t4'', 12), (''$t5'', 13), (''$t6'', 14), (''$t7'', 15),
      (''$s0'', 16), (''$s1'', 17), (''$s2'', 18), (''$s3'', 19),
      (''$s4'', 20), (''$s5'', 21), (''$s6'', 22), (''$s7'', 23),
      (''$t8'', 24), (''$t9'', 25), (''$k0'', 26), (''$k1'', 27),
      (''$gp'', 28), (''$sp'', 29), (''$fp'', 30), (''$ra'', 31)]"

text \<open>
  \<open>parseRegister\<close> on a string. Every key of \<open>regNames\<close> starts with \<open>$\<close>, which no
  inherited property of a JavaScript object does, so the table lookup is a plain map lookup.
\<close>

definition parseRegisterStr :: "string \<Rightarrow> error + nat" where
  "parseRegisterStr reg0 =
     (let reg = stripTrailingComma (trim reg0) in
      if startsWith reg ''$'' then
        (let numStr = drop 1 reg in
         if numStr \<noteq> [] \<and> list_all isDigit numStr \<and> digitsValue 10 numStr < 32
         then Inr (digitsValue 10 numStr)
         else (case map_of regNames (toLowerCase reg) of
                 Some n \<Rightarrow> Inr n
               | None \<Rightarrow> Inl InvalidRegister))
      else Inl InvalidRegister)"

text \<open>
  \<open>parseRegister\<close> on any operand: a value that is not a string goes through \<open>String(reg)\<close>,
  which gives \<open>[object Object]\<close> or \<open>undefined\<close>, and neither starts with \<open>$\<close>.
\<close>

definition parseRegister :: "arg option \<Rightarrow> error + nat" where
  "parseRegister a =
     (case a of
        Some (Str s) \<Rightarrow> parseRegisterStr s
      | Some (OffsetReg off r) \<Rightarrow> Inl InvalidRegister
      | None \<Rightarrow> Inl InvalidRegister)"

definition parseImmediateStr :: "string \<Rightarrow> int option" where
  "parseImmediateStr imm0 =
     (let imm = trim imm0 in
      if startsWith imm ''0x'' \<or> startsWith imm ''0X'' then parseInt imm 16
      else if startsWith imm ''0b'' \<or> startsWith imm ''0B'' then parseInt (drop 2 imm) 2
      else parseInt imm 10)"

text \<open>
  The value handed to \<open>parseImmediate\<close> is a number (returned as it is) or an operand;
  an operand that is not a string has no \<open>trim\<close> method, and the call throws.
\<close>

datatype immediateArg = Num "int option" | Operand "arg option"

definition parseImmediate :: "immediateArg \<Rightarrow> error + int option" where
  "parseImmediate imm =
     (case imm of
        Num n \<Rightarrow> Inr n
      | Operand (Some (Str s)) \<Rightarrow> Inr (parseImmediateStr s)
      | Operand (Some (OffsetReg off r)) \<Rightarrow> Inl TypeError
      | Operand None \<Rightarrow> Inl TypeError)"

text \<open>\<open>ToInt32\<close>/\<open>ToUint32\<close> of a number: \<open>NaN\<close> becomes 0, an integer is taken modulo \<open>2^32\<close>.\<close>

definition toInt32 :: "int option \<Rightarrow> u32" where
  "toInt32 n = (case n of None \<Rightarrow> 0 | Some k \<Rightarrow> word_of_int k)"

subsection \<open>parseLine\<close>

definition isIdentStart :: "char \<Rightarrow> bool" where
  "isIdentStart c = (isLower c \<or> isUpper c \<or> c = CHR ''_'')"

definition isIdentChar :: "char \<Rightarrow> bool" where
  "isIdentChar c = (isLower c \<or> isUpper c \<or> isDigit c \<or> c = CHR ''_'')"

text \<open>
  \<open>line.match(/^([a-zA-Z_][a-zA-Z0-9_]*):\s*(.*)$/)\<close>: the identifier and the rest after the
  colon and its white space. The dot does not match a carriage return (the only line
  terminator a piece of \<open>split('\n')\<close> can hold), so a rest that keeps one does not match.
\<close>

definition labelMatch :: "string \<Rightarrow> (string \<times> string) option" where
  "labelMatch line =
     (case line of
        [] \<Rightarrow> None
      | c # cs \<Rightarrow>
          if isIdentStart c then
            (let ident = c # takeWhile isIdentChar cs;
                 after = dropWhile isIdentChar cs
             in if startsWith after '':'' then
                  (let rest = dropWhile isSpace (tl after)
                   in if CHR 0x0D \<in> set rest \<or> CHR 0x0A \<in> set rest then None
                      else Some (ident, rest))
                else None)
          else None)"

text \<open>\<open>arg.match(/^(-?\d+)\(([^)]+)\)$/)\<close>: the offset digits and the text between the brackets.\<close>

definition offsetRegMatch :: "string \<Rightarrow> (string \<times> string) option" where
  "offsetRegMatch a =
     (let sign = (if startsWith a ''-'' then ''-'' else '''');
          a1 = drop (length sign) a;
          ds = takeWhile isDigit a1;
          a2 = dropWhile isDigit a1
      in if ds \<noteq> [] \<and> startsWith a2 ''('' \<and> 2 < length a2 \<and> last a2 = CHR '')''
            \<and> CHR '')'' \<notin> set (butlast (tl a2))
         then Some (sign @ ds, butlast (tl a2))
         else None)"

definition parseArg :: "string \<Rightarrow> arg" where
  "parseArg a0 =
     (let a = trim (stripTrailingComma a0) in
      case offsetRegMatch a of
        Some (off, r) \<Rightarrow> OffsetReg (parseInt off 10) (trim r)
      | None \<Rightarrow> Str a)"

definition parseLine :: "string \<Rightarrow> parsedLine option" where
  "parseLine line0 =
     (let line = trim (takeWhile (\<lambda>c. c \<noteq> CHR ''#'') line0) in
      if line = [] then None
      else
        (let lm = labelMatch line;
             lbl = map_option fst lm;
             line1 = (case lm of Some (l, rest) \<Rightarrow> trim rest | None \<Rightarrow> line)
         in if lm \<noteq> None \<and> line1 = [] then Some (PLabel (fst (the lm)))
            else
              (case tokens line1 of
                 [] \<Rightarrow> (case lbl of Some l \<Rightarrow> Some (PLabel l) | None \<Rightarrow> None)
               | t # ts \<Rightarrow> Some (PInstruction (toLowerCase t) (map parseArg ts) lbl))))"

subsection \<open>Encoders\<close>

definition opcodes :: "(string \<times> u32) list" where
  "opcodes =
     [(''R'', 0x00),
      (''j'', 0x02), (''jal'', 0x03),
      (''beq'', 0x04), (''bne'', 0x05), (''blez'', 0x06), (''bgtz'', 0x07),
      (''addi'', 0x08), (''addiu'', 0x09), (''slti'', 0x0a), (''sltiu'', 0x0b),
      (''andi'', 0x0c), (''ori'', 0x0d), (''xori'', 0x0e), (''lui'', 0x0f),
      (''lb'', 0x20), (''lh'', 0x21), (''lwl'', 0x22), (''lw'', 0x23),
      (''lbu'', 0x24), (''lhu'', 0x25), (''lwr'', 0x26),
      (''sb'', 0x28), (''sh'', 0x29), (''swl'', 0x2a), (''sw'', 0x2b), (''swr'', 0x2e)]"

definition functCodes :: "(string \<times> u32) list" where
  "functCodes =
     [(''sll'', 0x00), (''srl'', 0x02), (''sra'', 0x03), (''sllv'', 0x04),
      (''srlv'', 0x06), (''srav'', 0x07), (''jr'', 0x08), (''jalr'', 0x09),
      (''syscall'', 0x0c), (''mfhi'', 0x10), (''mthi'', 0x11), (''mflo'', 0x12),
      (''mtlo'', 0x13), (''mult'', 0x18), (''multu'', 0x19), (''div'', 0x1a),
      (''divu'', 0x1b), (''add'', 0x20), (''addu'', 0x21), (''sub'', 0x22),
      (''subu'', 0x23), (''and'', 0x24), (''or'', 0x25), (''xor'', 0x26),
      (''nor'', 0x27), (''slt'', 0x2a), (''sltu'', 0x2b)]"

text \<open>
  \<open>encodeRType(mnemonic, rd, rs, rt, shamt = 0)\<close>. The shift amount is shifted into place
  without a mask, as in the source.
\<close>

definition encodeRType :: "string \<Rightarrow> arg option \<Rightarrow> arg option \<Rightarrow> arg option \<Rightarrow> int option \<Rightarrow> error + u32" where
  "encodeRType mn rd rs rt shamt =
     (let opcode = (case map_of opcodes ''R'' of Some c \<Rightarrow> c | None \<Rightarrow> 0);
          funct = (case map_of functCodes mn of Some f \<Rightarrow> f | None \<Rightarrow> 0)
      in bindE (parseRegister rd) (\<lambda>rdNum.
         bindE (parseRegister rs) (\<lambda>rsNum.
         bindE (parseRegister rt) (\<lambda>rtNum.
           Inr (push_bit 26 opcode OR push_bit 21 (word_of_nat rsNum)
                OR push_bit 16 (word_of_nat rtNum) OR push_bit 11 (word_of_nat rdNum)
                OR push_bit 6 (toInt32 shamt) OR funct)))))"

definition encodeIType :: "string \<Rightarrow> arg option \<Rightarrow> arg option \<Rightarrow> immediateArg \<Rightarrow> error + u32" where
  "encodeIType mn rt rs immediate =
     (case map_of opcodes mn of
        None \<Rightarrow> Inl UnknownIType
      | Some opcode \<Rightarrow>
          bindE (parseRegister rt) (\<lambda>rtNum.
          bindE (parseRegister rs) (\<lambda>rsNum.
          bindE (parseImmediate immediate) (\<lambda>imm.
            Inr (push_bit 26 opcode OR push_bit 21 (word_of_nat rsNum)
                 OR push_bit 16 (word_of_nat rtNum) OR (toInt32 imm AND 0xffff))))))"

definition encodeJType :: "string \<Rightarrow> int option \<Rightarrow> error + u32" where
  "encodeJType mn addr =
     (case map_of opcodes mn of
        None \<Rightarrow> Inl UnknownJType
      | Some opcode \<Rightarrow>
          Inr (push_bit 26 opcode OR (drop_bit 2 (toInt32 addr) AND 0x3ffffff)))"

text \<open>
  \<open>encodeInstruction\<close> returns a number, or for a branch or a jump an object whose word is
  filled in by \<open>loadProgram\<close> once the label is known.
\<close>

datatype encoded = Encoded u32 | Branch | Jump

definition encodeInstruction :: "string \<Rightarrow> arg list \<Rightarrow> error + encoded" where
  "encodeInstruction mn as =
     (if mn \<in> set [''add'', ''addu'', ''sub'', ''subu'', ''and'', ''or'', ''xor'', ''nor'',
                    ''slt'', ''sltu''] then
        (if length as \<noteq> 3 then Inl InvalidArguments
         else map_sum id Encoded (encodeRType mn (argAt as 0) (argAt as 2) (argAt as 1) (Some 0)))
      else if mn \<in> set [''sll'', ''srl'', ''sra''] then
        (if length as \<noteq> 3 then Inl InvalidArguments
         else bindE (parseImmediate (Operand (argAt as 2))) (\<lambda>shamt.
              map_sum id Encoded
                (encodeRType mn (argAt as 0) (argAt as 1) (Some (Str ''$zero'')) shamt)))
      else if mn \<in> set [''sllv'', ''srlv'', ''srav''] then
        (if length as \<noteq> 3 then Inl InvalidArguments
         else map_sum id Encoded (encodeRType mn (argAt as 0) (argAt as 2) (argAt as 1) (Some 0)))
      else if mn = ''jr'' then
        (if length as \<noteq> 1 then Inl InvalidArguments
         else map_sum id Encoded
                (encodeRType ''jr'' (Some (Str ''$zero'')) (argAt as 0) (Some (Str ''$zero'')) (Some 0)))
      else if mn \<in> set [''mfhi'', ''mflo''] then
        (if length as \<noteq> 1 then Inl InvalidArguments
         else map_sum id Encoded
                (encodeRType mn (argAt as 0) (Some (Str ''$zero'')) (Some (Str ''$zero'')) (Some 0)))
      else if mn \<in> set [''mult'', ''multu'', ''div'', ''divu''] then
        (if length as \<noteq> 2 then Inl InvalidArguments
         else map_sum id Encoded
                (encodeRType mn (Some (Str ''$zero'')) (argAt as 0) (argAt as 1) (Some 0)))
      else if mn = ''syscall'' then
        map_sum id Encoded
          (encodeRType ''syscall'' (Some (Str ''$zero'')) (Some (Str ''$zero''))
             (Some (Str ''$zero'')) (Some 0))
      else if mn = ''nop'' then Inr (Encoded 0)
      else if mn \<in> set [''addi'', ''addiu'', ''andi'', ''ori'', ''xori'', ''slti'', ''sltiu''] then
        (if length as \<noteq> 3 then Inl InvalidArguments
         else map_sum id Encoded
                (encodeIType mn (argAt as 0) (argAt as 1) (Operand (argAt as 2))))
      else if mn = ''lui'' then
        (if length as \<noteq> 2 then Inl InvalidArguments
         else map_sum id Encoded
                (encodeIType ''lui'' (argAt as 0) (Some (Str ''$zero'')) (Operand (argAt as 1))))
      else if mn \<in> set [''lw'', ''lh'', ''lb'', ''sw'', ''sh'', ''sb''] then
        (if length as \<noteq> 2 then Inl InvalidArguments
         else (case argAt as 1 of
                 Some (OffsetReg off r) \<Rightarrow>
                   map_sum id Encoded
                     (encodeIType mn (argAt as 0) (Some (Str r)) (Num off))
               | _ \<Rightarrow> Inl InvalidMemoryAccessFormat))
      else if mn \<in> set [''beq'', ''bne''] then
        (if length as \<noteq> 3 then Inl InvalidArguments else Inr Branch)
      else if mn \<in> set [''bgtz'', ''blez''] then
        (if length as \<noteq> 2 then Inl InvalidArguments else Inr Branch)
      else if mn \<in> set [''j'', ''jal''] then
        (if length as \<noteq> 1 then Inl InvalidArguments else Inr Jump)
      else Inl UnknownInstruction)"

subsection \<open>Decoder and control signals\<close>

record decoded =
  opcode :: u32
  rs :: u32
  rt :: u32
  rd :: u32
  shamt :: u32
  funct :: u32
  immediate :: u32
  address26 :: u32

definition decodeInstruction :: "u32 \<Rightarrow> decoded" where
  "decodeInstruction w =
     \<lparr> opcode = drop_bit 26 w AND 0x3f,
       rs = drop_bit 21 w AND 0x1f,
       rt = drop_bit 16 w AND 0x1f,
       rd = drop_bit 11 w AND 0x1f,
       shamt = drop_bit 6 w AND 0x1f,
       funct = w AND 0x3f,
       immediate = w AND 0xffff,
       address26 = w AND 0x3ffffff \<rparr>"

record signals =
  RegWrite :: bool
  MemRead :: bool
  MemWrite :: bool
  MemToReg :: bool
  Branch_sig :: bool
  Jump_sig :: bool
  ALUSrc :: bool
  RegDst :: bool
  ALUOp :: nat

definition generateControlSignals :: "decoded \<Rightarrow> signals" where
  "generateControlSignals d =
     (let sig = \<lparr> RegWrite = False, MemRead = False, MemWrite = False, MemToReg = False,
                  Branch_sig = False, Jump_sig = False, ALUSrc = False, RegDst = False,
                  ALUOp = 0 \<rparr>
      in if opcode d = 0x00 then sig\<lparr>RegWrite := True, RegDst := True, ALUOp := 2\<rparr>
         else if opcode d = 0x23 then
           sig\<lparr>RegWrite := True, MemRead := True, MemToReg := True, ALUSrc := True, ALUOp := 0\<rparr>
         else if opcode d = 0x2b then sig\<lparr>MemWrite := True, ALUSrc := True, ALUOp := 0\<rparr>
         else if opcode d = 0x04 \<or> opcode d = 0x05 then sig\<lparr>Branch_sig := True, ALUOp := 1\<rparr>
         else if opcode d = 0x02 \<or> opcode d = 0x03 then
           sig\<lparr>Jump_sig := True, RegWrite := (opcode d = 0x03)\<rparr>
         else if opcode d \<in> set [0x08, 0x09, 0x0c, 0x0d, 0x0e, 0x0a, 0x0b] then
           sig\<lparr>RegWrite := True, ALUSrc := True,
               ALUOp := (if opcode d = 0x08 \<or> opcode d = 0x09 then 0 else 2)\<rparr>
         else sig)"

subsection \<open>Simulator state\<close>

text \<open>
  One entry of \<open>debugLog\<close>. The source stores the program counter, the word and the
  instruction as formatted text; the entry keeps the values that text is made from.
\<close>

record logEntry =
  log_cycle :: nat
  log_PC :: int
  log_mnemonic :: string
  log_args :: "arg list"
  log_binary :: u32
  log_decoded :: decoded
  log_control :: signals
  log_registers :: "u32 list"
  log_HI :: "u32 option"
  log_LO :: u32

text \<open>
  The fields of a \<open>MIPSSimulator\<close>. \<open>registers\<close> is the \<open>Uint32Array(32)\<close>, \<open>memory\<close> the
  \<open>Uint8Array(0x10000)\<close>. \<open>PC\<close> is a plain number, never reduced modulo \<open>2^32\<close> by the
  source. \<open>HI\<close> may be \<open>undefined\<close> (\<open>None\<close>). \<open>labels\<close> is only ever written by the source;
  while it is still \<open>undefined\<close> it is the empty map here.
\<close>

record sim =
  registers :: "u32 list"
  memory :: "u8 list"
  PC :: int
  HI :: "u32 option"
  LO :: u32
  instructions :: "instr list"
  labels :: "string \<rightharpoonup> nat"
  loaded :: bool
  halted :: bool
  cycle :: nat
  instructionCount :: nat
  debugMode :: bool
  debugLog :: "logEntry list"
  usedMemoryAddresses :: "nat set"

text \<open>The constructor assigns every field above except \<open>HI\<close> and \<open>labels\<close>.\<close>

definition constructor :: sim where
  "constructor =
     \<lparr> registers = replicate 32 0,
       memory = replicate 0x10000 0,
       PC = 0x00400000,
       HI = None,
       LO = 0,
       instructions = [],
       labels = Map.empty,
       loaded = False,
       halted = False,
       cycle = 0,
       instructionCount = 0,
       debugMode = False,
       debugLog = [],
       usedMemoryAddresses = {} \<rparr>"

subsection \<open>loadProgram\<close>

text \<open>
  The symbol table is a plain JavaScript object: \<open>labels[l]\<close> also finds the properties every
  object inherits, and an assignment to \<open>__proto__\<close> with a number stores nothing.
\<close>

definition objectPrototypeKeys :: "string list" where
  "objectPrototypeKeys =
     [''constructor'', ''__defineGetter__'', ''__defineSetter__'', ''hasOwnProperty'',
      ''__lookupGetter__'', ''__lookupSetter__'', ''isPrototypeOf'', ''propertyIsEnumerable'',
      ''toString'', ''valueOf'', ''__proto__'', ''toLocaleString'']"

datatype labelValue = Index nat | Inherited | Undefined

definition setLabel :: "(string \<rightharpoonup> nat) \<Rightarrow> string \<Rightarrow> nat \<Rightarrow> (string \<rightharpoonup> nat)" where
  "setLabel ls l idx = (if l = ''__proto__'' then ls else ls(l \<mapsto> idx))"

definition getLabel :: "(string \<rightharpoonup> nat) \<Rightarrow> string \<Rightarrow> labelValue" where
  "getLabel ls l =
     (case ls l of
        Some idx \<Rightarrow> Index idx
      | None \<Rightarrow> if l \<in> set objectPrototypeKeys then Inherited else Undefined)"

text \<open>First pass: collect labels and the parsed instructions.\<close>

type_synonym parsed = "string \<times> arg list \<times> string option"

fun firstPass :: "string list \<Rightarrow> nat \<Rightarrow> (string \<rightharpoonup> nat) \<Rightarrow> parsed list
                  \<Rightarrow> (string \<rightharpoonup> nat) \<times> parsed list" where
  "firstPass [] instructionIndex ls program = (ls, program)"
| "firstPass (line # rest) instructionIndex ls program =
     (case parseLine line of
        None \<Rightarrow> firstPass rest instructionIndex ls program
      | Some (PLabel l) \<Rightarrow> firstPass rest instructionIndex (setLabel ls l instructionIndex) program
      | Some (PInstruction mn as lbl) \<Rightarrow>
          firstPass rest (instructionIndex + 1)
            (case lbl of Some l \<Rightarrow> setLabel ls l instructionIndex | None \<Rightarrow> ls)
            (program @ [(mn, as, lbl)]))"

text \<open>
  The body of the second pass for the instruction at index \<open>i\<close>: its word, with the label of
  a branch or a jump resolved. An inherited property is not a number: the offset or the
  address computed from it is \<open>NaN\<close>.
\<close>

definition encodeAt :: "(string \<rightharpoonup> nat) \<Rightarrow> nat \<Rightarrow> string \<Rightarrow> arg list \<Rightarrow> error + u32" where
  "encodeAt ls i mn as =
     bindE (encodeInstruction mn as) (\<lambda>enc.
       case enc of
         Encoded w \<Rightarrow> Inr w
       | Branch \<Rightarrow>
           (case argAt as (length as - 1) of
              Some (Str l) \<Rightarrow>
                (case getLabel ls l of
                   Undefined \<Rightarrow> Inl UndefinedLabel
                 | v \<Rightarrow>
                     (let offset = (case v of Index idx \<Rightarrow> Some (int idx - int i - 1) | _ \<Rightarrow> None)
                      in if mn = ''beq'' \<or> mn = ''bne''
                         then encodeIType mn (argAt as 0) (argAt as 1) (Num offset)
                         else encodeIType mn (argAt as 0) (argAt as 0) (Num offset)))
            | _ \<Rightarrow> Inl UndefinedLabel)
       | Jump \<Rightarrow>
           (case argAt as 0 of
              Some (Str l) \<Rightarrow>
                (case getLabel ls l of
                   Undefined \<Rightarrow> Inl UndefinedLabel
                 | v \<Rightarrow>
                     (let addr = (case v of Index idx \<Rightarrow> Some (0x00400000 + int idx * 4) | _ \<Rightarrow> None)
                      in encodeJType mn addr))
            | _ \<Rightarrow> Inl UndefinedLabel))"

text \<open>
  Second pass: \<open>this.instructions\<close> grows by one record per encoded instruction; an error
  leaves the loop with what has been pushed so far. \<open>pc\<close> is \<open>this.PC\<close>.
\<close>

fun secondPass :: "(string \<rightharpoonup> nat) \<Rightarrow> int \<Rightarrow> nat \<Rightarrow> parsed list \<Rightarrow> instr list
                   \<Rightarrow> error option \<times> instr list" where
  "secondPass ls pc i [] acc = (None, acc)"
| "secondPass ls pc i ((mn, as, lbl) # rest) acc =
     (case encodeAt ls i mn as of
        Inl e \<Rightarrow> (Some e, acc)
      | Inr w \<Rightarrow>
          secondPass ls pc (i + 1) rest
            (acc @ [\<lparr> mnemonic = mn, args = as, label = lbl, binary = w,
                      address = pc + int i * 4 \<rparr>]))"

text \<open>
  \<open>loadProgram\<close> returns the state it leaves behind and either the error thrown or the
  number of instructions of \<open>{ success: true, instructions: n }\<close>.
\<close>

definition loadProgram :: "string \<Rightarrow> sim \<Rightarrow> sim \<times> (error + nat)" where
  "loadProgram assemblyText s =
     (let (ls, program) = firstPass (splitLines assemblyText) 0 Map.empty [];
          (err, ins) = secondPass ls (PC s) 0 program []
      in case err of
           Some e \<Rightarrow> (s\<lparr>instructions := ins\<rparr>, Inl e)
         | None \<Rightarrow>
             (s\<lparr> instructions := ins, labels := ls, loaded := True, halted := False,
                 cycle := 0, instructionCount := 0, debugLog := [],
                 usedMemoryAddresses := {} \<rparr>,
              Inr (length ins)))"

subsection \<open>Memory\<close>

text \<open>
  \<open>readMemory\<close> and \<open>writeMemory\<close> start with \<open>address >>> 0\<close>, so the address is a 32-bit
  word here and \<open>addr + 1\<close> wraps the way the source's addresses do after that conversion.
\<close>

definition readMemory :: "sim \<Rightarrow> u32 \<Rightarrow> u8 \<times> sim" where
  "readMemory s a =
     (let addr = unat a in
      if addr < length (memory s)
      then (memory s ! addr, s\<lparr>usedMemoryAddresses := insert addr (usedMemoryAddresses s)\<rparr>)
      else (0, s))"

definition writeMemory :: "sim \<Rightarrow> u32 \<Rightarrow> u32 \<Rightarrow> sim" where
  "writeMemory s a v =
     (let addr = unat a in
      if addr < length (memory s)
      then s\<lparr>memory := (memory s)[addr := ucast (v AND 0xff)],
             usedMemoryAddresses := insert addr (usedMemoryAddresses s)\<rparr>
      else s)"

definition readWord :: "sim \<Rightarrow> u32 \<Rightarrow> u32 \<times> sim" where
  "readWord s a =
     (let addr = a AND NOT 0x3;
          (b0, s0) = readMemory s addr;
          (b1, s1) = readMemory s0 (addr + 1);
          (b2, s2) = readMemory s1 (addr + 2);
          (b3, s3) = readMemory s2 (addr + 3)
      in (push_bit 24 (ucast b0) OR push_bit 16 (ucast b1) OR push_bit 8 (ucast b2) OR ucast b3,
          s3))"

definition writeWord :: "sim \<Rightarrow> u32 \<Rightarrow> u32 \<Rightarrow> sim" where
  "writeWord s a v =
     (let addr = a AND NOT 0x3;
          s0 = writeMemory s addr (drop_bit 24 v AND 0xff);
          s1 = writeMemory s0 (addr + 1) (drop_bit 16 v AND 0xff);
          s2 = writeMemory s1 (addr + 2) (drop_bit 8 v AND 0xff)
      in writeMemory s2 (addr + 3) (v AND 0xff))"

text \<open>\<open>signExtend16(value)\<close> is \<open>(value << 16) >> 16\<close> on 32-bit integers.\<close>

definition signExtend16 :: "u32 \<Rightarrow> u32" where
  "signExtend16 v = signed_drop_bit 16 (push_bit 16 v)"

subsection \<open>executeInstruction\<close>

definition setReg :: "sim \<Rightarrow> nat \<Rightarrow> u32 \<Rightarrow> sim" where
  "setReg s i v = s\<lparr>registers := (registers s)[i := v]\<rparr>"

text \<open>\<open>this.registers[this.parseRegister(a)]\<close> as a value.\<close>

definition regOf :: "sim \<Rightarrow> arg option \<Rightarrow> error + u32" where
  "regOf s a = bindE (parseRegister a) (\<lambda>i. Inr (registers s ! i))"

text \<open>
  The first lines of every load and store:
  \<open>baseReg = this.registers[this.parseRegister(args[1].reg)]\<close>, \<open>offset = args[1].offset\<close>,
  \<open>addr = (baseReg + offset) >>> 0\<close>. The sum is a sum of doubles: it is the Number value of
  the exact sum, and not a finite number when the offset is not. A raw token has no \<open>reg\<close>
  property; \<open>undefined\<close> has no properties at all.
\<close>

definition effectiveAddress :: "sim \<Rightarrow> arg option \<Rightarrow> error + u32" where
  "effectiveAddress s a =
     (case a of
        Some (OffsetReg off r) \<Rightarrow>
          bindE (parseRegisterStr r) (\<lambda>b.
            Inr (toInt32 (case off of
                            None \<Rightarrow> None
                          | Some n \<Rightarrow> numberOf (uint (registers s ! b) + n))))
      | Some (Str t) \<Rightarrow> Inl InvalidRegister
      | None \<Rightarrow> Inl TypeError)"

text \<open>The remainder of \<open>%\<close> on integers: it takes the sign of the dividend.\<close>

definition jsRem :: "int \<Rightarrow> int \<Rightarrow> int" where
  "jsRem a b = sgn a * (\<bar>a\<bar> mod \<bar>b\<bar>)"

text \<open>
  The shapes that many cases of the \<open>switch\<close> share, operands parsed in the order the source
  evaluates them. \<open>rType\<close>: \<open>registers[args[0]] = f(registers[args[2]], registers[args[1]])\<close>.
\<close>

definition rType :: "sim \<Rightarrow> arg list \<Rightarrow> (u32 \<Rightarrow> u32 \<Rightarrow> u32) \<Rightarrow> error + sim" where
  "rType s as f =
     bindE (parseRegister (argAt as 0)) (\<lambda>d.
     bindE (regOf s (argAt as 2)) (\<lambda>x.
     bindE (regOf s (argAt as 1)) (\<lambda>y.
       Inr (setReg s d (f x y)))))"

text \<open>\<open>shiftImm\<close>: \<open>registers[args[0]] = f(registers[args[1]], parseImmediate(args[2]))\<close>.\<close>

definition shiftImm :: "sim \<Rightarrow> arg list \<Rightarrow> (u32 \<Rightarrow> int option \<Rightarrow> u32) \<Rightarrow> error + sim" where
  "shiftImm s as f =
     bindE (parseRegister (argAt as 0)) (\<lambda>d.
     bindE (regOf s (argAt as 1)) (\<lambda>x.
     bindE (parseImmediate (Operand (argAt as 2))) (\<lambda>n.
       Inr (setReg s d (f x n)))))"

text \<open>\<open>shiftVar\<close>: \<open>registers[args[0]] = f(registers[args[1]], registers[args[2]] & 0x1f)\<close>.\<close>

definition shiftVar :: "sim \<Rightarrow> arg list \<Rightarrow> (u32 \<Rightarrow> nat \<Rightarrow> u32) \<Rightarrow> error + sim" where
  "shiftVar s as f =
     bindE (parseRegister (argAt as 0)) (\<lambda>d.
     bindE (regOf s (argAt as 1)) (\<lambda>x.
     bindE (regOf s (argAt as 2)) (\<lambda>y.
       Inr (setReg s d (f x (unat (y AND 0x1f)))))))"

text \<open>
  \<open>immFirst\<close>: \<open>rsVal = registers[args[1]]\<close>, then \<open>imm = parseImmediate(args[2])\<close>, then
  \<open>registers[args[0]] = f(rsVal, imm)\<close> (addi, addiu, slti, sltiu).
\<close>

definition immFirst :: "sim \<Rightarrow> arg list \<Rightarrow> (u32 \<Rightarrow> int option \<Rightarrow> u32) \<Rightarrow> error + sim" where
  "immFirst s as f =
     bindE (regOf s (argAt as 1)) (\<lambda>x.
     bindE (parseImmediate (Operand (argAt as 2))) (\<lambda>n.
     bindE (parseRegister (argAt as 0)) (\<lambda>d.
       Inr (setReg s d (f x n)))))"

text \<open>\<open>mulDiv\<close>: \<open>rsVal = registers[args[0]]\<close>, \<open>rtVal = registers[args[1]]\<close>, then the update.\<close>

definition mulDiv :: "sim \<Rightarrow> arg list \<Rightarrow> (u32 \<Rightarrow> u32 \<Rightarrow> sim) \<Rightarrow> error + sim" where
  "mulDiv s as f =
     bindE (regOf s (argAt as 0)) (\<lambda>x.
     bindE (regOf s (argAt as 1)) (\<lambda>y.
       Inr (f x y)))"

text \<open>
  The branches read their operands and the offset \<open>signExtend16(decoded.immediate)\<close>;
  \<open>nextPC = this.PC + 4 + (offset << 2)\<close> when taken.
\<close>

definition branchTarget :: "sim \<Rightarrow> decoded \<Rightarrow> int" where
  "branchTarget s d = PC s + 4 + sint (push_bit 2 (signExtend16 (immediate d)))"

definition jumpTarget :: "sim \<Rightarrow> decoded \<Rightarrow> int" where
  "jumpTarget s d =
     sint ((word_of_int (PC s + 4) AND 0xf0000000) OR push_bit 2 (address26 d))"

text \<open>
  A thrown error leaves the state as it is at the throw. Everything but \<open>lb\<close> and \<open>lh\<close> parses
  its operands before it changes anything.
\<close>

definition thrownAt :: "sim \<Rightarrow> error + 'a \<Rightarrow> (error \<times> sim) + 'a" where
  "thrownAt s m = (case m of Inl e \<Rightarrow> Inl (e, s) | Inr x \<Rightarrow> Inr x)"

text \<open>
  The \<open>switch (mnemonic)\<close> of \<open>executeInstruction\<close>: the state after the case, \<open>nextPC\<close> and
  \<open>branchTaken\<close>.
\<close>

definition effect :: "instr \<Rightarrow> decoded \<Rightarrow> sim \<Rightarrow> (error \<times> sim) + (sim \<times> int \<times> bool)" where
  "effect i d s =
     (let mn = mnemonic i; as = args i; nextPC = PC s + 4;
          seq = (\<lambda>m. thrownAt s (bindE m (\<lambda>s'. Inr (s', nextPC, False))))
      in
      if mn = ''add'' then seq (rType s as (\<lambda>x y. x + y))
      else if mn = ''sub'' then seq (rType s as (\<lambda>x y. x - y))
      else if mn = ''addu'' then seq (rType s as (\<lambda>x y. x + y))
      else if mn = ''subu'' then seq (rType s as (\<lambda>x y. x - y))
      else if mn = ''and'' then seq (rType s as (\<lambda>x y. x AND y))
      else if mn = ''or'' then seq (rType s as (\<lambda>x y. x OR y))
      else if mn = ''xor'' then seq (rType s as (\<lambda>x y. x XOR y))
      else if mn = ''nor'' then seq (rType s as (\<lambda>x y. NOT (x OR y)))
      else if mn = ''sll'' then
        seq (shiftImm s as (\<lambda>x n. push_bit (unat (toInt32 n AND 0x1f)) x))
      else if mn = ''srl'' then
        seq (shiftImm s as (\<lambda>x n. drop_bit (unat (toInt32 n AND 0x1f)) x))
      else if mn = ''sra'' then
        seq (shiftImm s as (\<lambda>x n. signed_drop_bit (unat (toInt32 n AND 0x1f)) x))
      else if mn = ''sllv'' then seq (shiftVar s as (\<lambda>x n. push_bit n x))
      else if mn = ''srlv'' then seq (shiftVar s as (\<lambda>x n. drop_bit n x))
      else if mn = ''srav'' then seq (shiftVar s as (\<lambda>x n. signed_drop_bit n x))
      else if mn = ''slt'' then seq (rType s as (\<lambda>x y. if sint x < sint y then 1 else 0))
      else if mn = ''sltu'' then seq (rType s as (\<lambda>x y. if x < y then 1 else 0))
      else if mn = ''mult'' then
        seq (mulDiv s as (\<lambda>x y.
               s\<lparr>HI := Some (word_of_int ((sint x * sint y) div 2 ^ 32)),
                  LO := word_of_int (sint x * sint y)\<rparr>))
      else if mn = ''multu'' then
        seq (mulDiv s as (\<lambda>x y.
               s\<lparr>HI := Some (word_of_int ((uint x * uint y) div 2 ^ 32)),
                  LO := word_of_int (uint x * uint y)\<rparr>))
      else if mn = ''div'' then
        seq (mulDiv s as (\<lambda>x y.
               if sint y \<noteq> 0
               then s\<lparr>LO := word_of_int (sint x div sint y),
                      HI := Some (word_of_int (jsRem (sint x) (sint y)))\<rparr>
               else s))
      else if mn = ''divu'' then
        seq (mulDiv s as (\<lambda>x y.
               if uint y \<noteq> 0
               then s\<lparr>LO := word_of_int (uint x div uint y),
                      HI := Some (word_of_int (jsRem (uint x) (uint y)))\<rparr>
               else s))
      else if mn = ''mfhi'' then
        seq (bindE (parseRegister (argAt as 0)) (\<lambda>r.
               Inr (setReg s r (case HI s of None \<Rightarrow> 0 | Some h \<Rightarrow> h))))
      else if mn = ''mflo'' then
        seq (bindE (parseRegister (argAt as 0)) (\<lambda>r. Inr (setReg s r (LO s))))
      else if mn = ''addi'' then seq (immFirst s as (\<lambda>x n. x + signExtend16 (toInt32 n)))
      else if mn = ''addiu'' then seq (immFirst s as (\<lambda>x n. x + signExtend16 (toInt32 n)))
      else if mn = ''andi'' then seq (shiftImm s as (\<lambda>x n. x AND (toInt32 n AND 0xffff)))
      else if mn = ''ori'' then seq (shiftImm s as (\<lambda>x n. x OR (toInt32 n AND 0xffff)))
      else if mn = ''xori'' then seq (shiftImm s as (\<lambda>x n. x XOR (toInt32 n AND 0xffff)))
      else if mn = ''slti'' then
        seq (immFirst s as (\<lambda>x n. if sint x < sint (signExtend16 (toInt32 n)) then 1 else 0))
      else if mn = ''sltiu'' then
        seq (immFirst s as (\<lambda>x n. if x < (toInt32 n AND 0xffff) then 1 else 0))
      else if mn = ''lui'' then
        seq (bindE (parseRegister (argAt as 0)) (\<lambda>r.
             bindE (parseImmediate (Operand (argAt as 1))) (\<lambda>n.
               Inr (setReg s r (push_bit 16 (toInt32 n))))))
      else if mn = ''lw'' then
        seq (bindE (effectiveAddress s (argAt as 1)) (\<lambda>addr.
             bindE (parseRegister (argAt as 0)) (\<lambda>r.
               (case readWord s addr of (w, s1) \<Rightarrow> Inr (setReg s1 r w)))))
      else if mn = ''sw'' then
        seq (bindE (effectiveAddress s (argAt as 1)) (\<lambda>addr.
             bindE (regOf s (argAt as 0)) (\<lambda>v.
               Inr (writeWord s addr v))))
      else if mn = ''lb'' then
        (case effectiveAddress s (argAt as 1) of
           Inl e \<Rightarrow> Inl (e, s)
         | Inr addr \<Rightarrow>
             (case readMemory s addr of (byteVal, s1) \<Rightarrow>
                thrownAt s1 (bindE (parseRegister (argAt as 0)) (\<lambda>r.
                  Inr (setReg s1 r (signExtend16 (ucast byteVal)), nextPC, False)))))
      else if mn = ''sb'' then
        seq (bindE (effectiveAddress s (argAt as 1)) (\<lambda>addr.
             bindE (regOf s (argAt as 0)) (\<lambda>v.
               Inr (writeMemory s addr (v AND 0xff)))))
      else if mn = ''lh'' then
        (case effectiveAddress s (argAt as 1) of
           Inl e \<Rightarrow> Inl (e, s)
         | Inr addr \<Rightarrow>
             (case readMemory s addr of (b0, s0) \<Rightarrow>
              case readMemory s0 (addr + 1) of (b1, s1) \<Rightarrow>
                thrownAt s1 (bindE (parseRegister (argAt as 0)) (\<lambda>r.
                  Inr (setReg s1 r (signExtend16 (push_bit 8 (ucast b0) OR ucast b1)),
                       nextPC, False)))))
      else if mn = ''sh'' then
        seq (bindE (effectiveAddress s (argAt as 1)) (\<lambda>addr.
             bindE (regOf s (argAt as 0)) (\<lambda>v.
               Inr (writeMemory (writeMemory s addr (drop_bit 8 v AND 0xff)) (addr + 1)
                      (v AND 0xff)))))
      else if mn = ''beq'' then
        thrownAt s (bindE (regOf s (argAt as 0)) (\<lambda>x.
                    bindE (regOf s (argAt as 1)) (\<lambda>y.
                      Inr (if x = y then (s, branchTarget s d, True) else (s, nextPC, False)))))
      else if mn = ''bne'' then
        thrownAt s (bindE (regOf s (argAt as 0)) (\<lambda>x.
                    bindE (regOf s (argAt as 1)) (\<lambda>y.
                      Inr (if x \<noteq> y then (s, branchTarget s d, True) else (s, nextPC, False)))))
      else if mn = ''bgtz'' then
        thrownAt s (bindE (regOf s (argAt as 0)) (\<lambda>x.
                      Inr (if 0 < sint x then (s, branchTarget s d, True) else (s, nextPC, False))))
      else if mn = ''blez'' then
        thrownAt s (bindE (regOf s (argAt as 0)) (\<lambda>x.
                      Inr (if sint x \<le> 0 then (s, branchTarget s d, True) else (s, nextPC, False))))
      else if mn = ''j'' then Inr (s, jumpTarget s d, False)
      else if mn = ''jal'' then Inr (setReg s 31 (word_of_int (PC s + 4)), jumpTarget s d, False)
      else if mn = ''jr'' then
        thrownAt s (bindE (regOf s (argAt as 0)) (\<lambda>x. Inr (s, uint x, False)))
      else if mn = ''syscall'' then
        Inr (if registers s ! 2 = 10 then s\<lparr>halted := True\<rparr> else s, nextPC, False)
      else if mn = ''nop'' then Inr (s, nextPC, False)
      else Inl (UnimplementedInstruction, s))"

text \<open>What \<open>executeInstruction\<close> returns besides the instruction itself.\<close>

record executionResult =
  res_decoded :: decoded
  res_control :: signals
  res_branchTaken :: bool
  res_nextPC :: int

text \<open>
  \<open>executeInstruction\<close>. A stored instruction always has a \<open>binary\<close>, so the first check of
  the source never throws. After the \<open>switch\<close>: register 0 is cleared, the program counter
  and the two counters are updated.
\<close>

definition executeInstruction :: "instr \<Rightarrow> sim \<Rightarrow> sim \<times> (error + executionResult)" where
  "executeInstruction i s =
     (let d = decodeInstruction (binary i);
          control = generateControlSignals d
      in case effect i d s of
           Inl (e, s1) \<Rightarrow> (s1, Inl e)
         | Inr (s1, nextPC, branchTaken) \<Rightarrow>
             (s1\<lparr> registers := (registers s1)[0 := 0],
                  PC := nextPC,
                  cycle := cycle s1 + 1,
                  instructionCount := instructionCount s1 + 1 \<rparr>,
              Inr \<lparr> res_decoded = d, res_control = control, res_branchTaken = branchTaken,
                    res_nextPC = nextPC \<rparr>))"

subsection \<open>step, run and reset\<close>

definition logDebug :: "instr \<Rightarrow> executionResult \<Rightarrow> int \<Rightarrow> sim \<Rightarrow> sim" where
  "logDebug i r pcBeforeExecution s =
     s\<lparr>debugLog := debugLog s @
         [\<lparr> log_cycle = cycle s, log_PC = pcBeforeExecution, log_mnemonic = mnemonic i,
             log_args = args i, log_binary = binary i, log_decoded = res_decoded r,
             log_control = res_control r, log_registers = registers s,
             log_HI = HI s, log_LO = LO s \<rparr>]\<rparr>"

datatype stepResult =
    StepSuccess
  | NotLoadedOrHalted        \<comment> \<open>\<open>Program not loaded or halted\<close>\<close>
  | PCOutOfBounds            \<comment> \<open>\<open>PC out of bounds\<close>, with \<open>halted: true\<close>\<close>
  | StepThrew error          \<comment> \<open>the exception of \<open>executeInstruction\<close> leaves \<open>step\<close>\<close>

text \<open>The index \<open>(this.PC - 0x00400000) >>> 2\<close> is never negative.\<close>

definition instructionIndexOf :: "int \<Rightarrow> nat" where
  "instructionIndexOf pc = unat (drop_bit 2 (word_of_int (pc - 0x00400000) :: u32))"

definition step :: "sim \<Rightarrow> sim \<times> stepResult" where
  "step s =
     (if \<not> loaded s \<or> halted s then (s, NotLoadedOrHalted)
      else
        (let instructionIndex = instructionIndexOf (PC s) in
         if instructionIndex \<ge> length (instructions s) then (s\<lparr>halted := True\<rparr>, PCOutOfBounds)
         else
           (let instruction = instructions s ! instructionIndex;
                pcBeforeExecution = PC s
            in case executeInstruction instruction s of
                 (s1, Inl e) \<Rightarrow> (s1, StepThrew e)
               | (s1, Inr r) \<Rightarrow>
                   (if debugMode s1 then logDebug instruction r pcBeforeExecution s1 else s1,
                    StepSuccess))))"

datatype runResult =
    RunSuccess nat             \<comment> \<open>\<open>{ success: true, steps }\<close>\<close>
  | RunNotLoadedOrHalted       \<comment> \<open>\<open>Program not loaded or halted\<close>\<close>
  | RunStepFailed stepResult   \<comment> \<open>the failed result of \<open>step\<close>, returned as it is\<close>
  | MaximumStepLimitReached    \<comment> \<open>\<open>Maximum step limit reached\<close>\<close>

definition maxSteps :: nat where
  "maxSteps = 10000"

text \<open>The \<open>while\<close> loop of \<open>run\<close> and the two returns after it.\<close>

function runLoop :: "nat \<Rightarrow> sim \<Rightarrow> sim \<times> runResult" where
  "runLoop steps s =
     (if \<not> halted s \<and> steps < maxSteps then
        (case step s of
           (s1, StepSuccess) \<Rightarrow> runLoop (steps + 1) s1
         | (s1, r) \<Rightarrow> (s1, RunStepFailed r))
      else if steps \<ge> maxSteps then (s, MaximumStepLimitReached)
      else (s, RunSuccess steps))"
  by pat_completeness auto
termination
  by (relation "measure (\<lambda>(steps, s). maxSteps - steps)") auto

declare runLoop.simps [simp del]

definition run :: "sim \<Rightarrow> sim \<times> runResult" where
  "run s = (if \<not> loaded s \<or> halted s then (s, RunNotLoadedOrHalted) else runLoop 0 s)"

definition reset :: "sim \<Rightarrow> sim" where
  "reset s =
     (let s1 = s\<lparr> registers := replicate (length (registers s)) 0,
                  memory := replicate (length (memory s)) 0,
                  PC := 0x00400000,
                  HI := Some 0,
                  LO := 0,
                  halted := False,
                  cycle := 0,
                  instructionCount := 0,
                  debugLog := [],
                  usedMemoryAddresses := {} \<rparr>
      in if \<not> loaded s then s1\<lparr>instructions := [], labels := Map.empty\<rparr> else s1)"

definition setDebugMode :: "bool \<Rightarrow> sim \<Rightarrow> sim" where
  "setDebugMode enabled s = s\<lparr>debugMode := enabled\<rparr>"

subsection \<open>Observation helpers and example programs\<close>

text \<open>\<open>stepN n\<close>: the state after \<open>n\<close> calls of \<open>step\<close>, whatever each call returns.\<close>

primrec stepN :: "nat \<Rightarrow> sim \<Rightarrow> sim" where
  "stepN 0 s = s"
| "stepN (Suc n) s = stepN n (fst (step s))"

text \<open>
  The record that the second pass of \<open>loadProgram\<close> pushes for the parsed instruction \<open>p\<close> at
  index \<open>i\<close>, encoded as \<open>w\<close>, while \<open>this.PC\<close> is \<open>pc\<close>; and the result of the first pass on a
  program text.
\<close>

definition storedInstruction :: "parsed \<Rightarrow> u32 \<Rightarrow> int \<Rightarrow> nat \<Rightarrow> instr" where
  "storedInstruction p w pc i =
     \<lparr>mnemonic = fst p, args = fst (snd p), label = snd (snd p), binary = w,
      address = pc + int i * 4\<rparr>"

definition firstPassOf :: "string \<Rightarrow> (string \<rightharpoonup> nat) \<times> parsed list" where
  "firstPassOf assemblyText = firstPass (splitLines assemblyText) 0 Map.empty []"

text \<open>
  Byte access as the memory subsystem defines it for one address: a byte outside the array
  reads as 0, a store outside the array is dropped.
\<close>

definition byteAt :: "u8 list \<Rightarrow> u32 \<Rightarrow> u8" where
  "byteAt m a = (if unat a < length m then m ! unat a else 0)"

definition storeByte :: "u8 list \<Rightarrow> u32 \<Rightarrow> u8 \<Rightarrow> u8 list" where
  "storeByte m a v = (if unat a < length m then m[unat a := v] else m)"

text \<open>
  A word in memory, big-endian: the byte at address \<open>a\<close> holds bits 31..24, the byte at
  \<open>a + 3\<close> bits 7..0.
\<close>

definition wordAt :: "u8 list \<Rightarrow> u32 \<Rightarrow> u32" where
  "wordAt m a =
     push_bit 24 (ucast (byteAt m a)) OR push_bit 16 (ucast (byteAt m (a + 1)))
     OR push_bit 8 (ucast (byteAt m (a + 2))) OR ucast (byteAt m (a + 3))"

definition storeWord :: "u8 list \<Rightarrow> u32 \<Rightarrow> u32 \<Rightarrow> u8 list" where
  "storeWord m a v =
     storeByte
       (storeByte
          (storeByte (storeByte m a (ucast (drop_bit 24 v))) (a + 1) (ucast (drop_bit 16 v)))
          (a + 2) (ucast (drop_bit 8 v)))
       (a + 3) (ucast v)"

text \<open>Program texts used below; lines are separated by a line feed.\<close>

definition subProgram :: string where
  "subProgram =
     ''addi $t1, $zero, 5'' @ [CHR 0x0A] @
     ''addi $t2, $zero, 3'' @ [CHR 0x0A] @
     ''sub $t0, $t1, $t2''"

definition lbProgram :: string where
  "lbProgram =
     ''addi $t1, $zero, 128'' @ [CHR 0x0A] @
     ''sb $t1, 256($zero)'' @ [CHR 0x0A] @
     ''lb $t0, 256($zero)''"

definition divProgram :: string where
  "divProgram =
     ''addi $t1, $zero, -7'' @ [CHR 0x0A] @
     ''addi $t2, $zero, 2'' @ [CHR 0x0A] @
     ''div $t1, $t2''"

definition halfwordProgram :: string where
  "halfwordProgram =
     ''addi $t1, $zero, 0x12'' @ [CHR 0x0A] @
     ''sb $t1, 257($zero)'' @ [CHR 0x0A] @
     ''addi $t1, $zero, 0x34'' @ [CHR 0x0A] @
     ''sb $t1, 258($zero)'' @ [CHR 0x0A] @
     ''lh $t0, 257($zero)'' @ [CHR 0x0A] @
     ''sh $t0, 261($zero)''"

definition stepCapProgram :: string where
  "stepCapProgram =
     ''addi $v0, $zero, 10'' @ [CHR 0x0A] @
     ''addi $t0, $zero, 4998'' @ [CHR 0x0A] @
     ''nop'' @ [CHR 0x0A] @
     ''loop: addi $t0, $t0, -1'' @ [CHR 0x0A] @
     ''bne $t0, $zero, loop'' @ [CHR 0x0A] @
     ''syscall''"

text \<open>
  \<open>stepCapProgram\<close> as \<open>loadProgram\<close> stores it, and the part of the state that its execution
  depends on: the stored program, the flags, registers \<open>$zero\<close>, \<open>$v0\<close> and \<open>$t0\<close>, the program
  counter and the instruction count.
\<close>

definition capInstructions :: "instr list" where
  "capInstructions =
     [\<lparr>mnemonic = ''addi'', args = [Str ''$v0'', Str ''$zero'', Str ''10''], label = None,
        binary = 0x2002000A, address = 0x00400000\<rparr>,
      \<lparr>mnemonic = ''addi'', args = [Str ''$t0'', Str ''$zero'', Str ''4998''], label = None,
        binary = 0x20081386, address = 0x00400004\<rparr>,
      \<lparr>mnemonic = ''nop'', args = [], label = None, binary = 0, address = 0x00400008\<rparr>,
      \<lparr>mnemonic = ''addi'', args = [Str ''$t0'', Str ''$t0'', Str ''-1''], label = Some ''loop'',
        binary = 0x2108FFFF, address = 0x0040000C\<rparr>,
      \<lparr>mnemonic = ''bne'', args = [Str ''$t0'', Str ''$zero'', Str ''loop''], label = None,
        binary = 0x1408FFFE, address = 0x00400010\<rparr>,
      \<lparr>mnemonic = ''syscall'', args = [], label = None, binary = 0x0000000C,
        address = 0x00400014\<rparr>]"

definition inCapProgram :: "sim \<Rightarrow> u32 \<Rightarrow> u32 \<Rightarrow> int \<Rightarrow> nat \<Rightarrow> bool" where
  "inCapProgram s v0 t0 pc n =
     (instructions s = capInstructions \<and> loaded s \<and> \<not> halted s \<and> \<not> debugMode s \<and>
      length (registers s) = 32 \<and> registers s ! 0 = 0 \<and> registers s ! 2 = v0 \<and>
      registers s ! 8 = t0 \<and> PC s = pc \<and> instructionCount s = n)"

section \<open>Evaluation rules\<close>

lemmas parse_defs = isSpace_def trim_def isDigit_def isUpper_def isLower_def toLowerChar_def
  toLowerCase_def startsWith_def stripTrailingComma_def splitLines_def tokens_def digitValue_def
  isDigitOf_def digitsValue_def numberOf_def parseInt_def argAt_def regNames_def
  parseRegisterStr_def
  parseRegister_def parseImmediateStr_def parseImmediate_def toInt32_def isIdentStart_def
  isIdentChar_def labelMatch_def offsetRegMatch_def parseArg_def parseLine_def

lemmas encode_defs = bindE_def opcodes_def functCodes_def encodeRType_def encodeIType_def
  encodeJType_def encodeInstruction_def objectPrototypeKeys_def setLabel_def getLabel_def
  encodeAt_def loadProgram_def

lemmas exec_defs = readMemory_def writeMemory_def readWord_def writeWord_def setReg_def regOf_def
  effectiveAddress_def jsRem_def rType_def shiftImm_def shiftVar_def immFirst_def mulDiv_def
  branchTarget_def jumpTarget_def thrownAt_def effect_def executeInstruction_def
  decodeInstruction_def generateControlSignals_def logDebug_def instructionIndexOf_def step_def
  Let_def signExtend16_def

lemma stepN_numeral: "stepN (numeral k) s = stepN (pred_numeral k) (fst (step s))"
  by (simp add: numeral_eq_Suc)

lemmas run_defs = parse_defs encode_defs exec_defs constructor_def stepN_numeral

section \<open>Frame lemmas: what each operation leaves alone\<close>

lemma readMemory_registers: "readMemory s a = (b, s1) \<Longrightarrow> registers s1 = registers s"
  by (auto simp: readMemory_def Let_def split: if_splits)

lemma writeMemory_registers: "registers (writeMemory s a v) = registers s"
  by (simp add: writeMemory_def Let_def)

lemma readWord_registers: "readWord s a = (w, s1) \<Longrightarrow> registers s1 = registers s"
  by (auto simp: readWord_def Let_def split: prod.splits dest!: readMemory_registers)

lemma writeWord_registers: "registers (writeWord s a v) = registers s"
  by (simp add: writeWord_def Let_def writeMemory_registers)

lemma effect_Inr_length:
  "effect i d s = Inr (s1, n, b) \<Longrightarrow> length (registers s1) = length (registers s)"
  unfolding effect_def Let_def thrownAt_def bindE_def rType_def shiftImm_def shiftVar_def
    immFirst_def mulDiv_def regOf_def setReg_def
  by (auto split: if_splits sum.splits prod.splits
      simp: writeMemory_registers writeWord_registers
      dest!: readMemory_registers readWord_registers)

lemma effect_Inl_registers:
  "effect i d s = Inl (e, s1) \<Longrightarrow> registers s1 = registers s"
  unfolding effect_def Let_def thrownAt_def bindE_def rType_def shiftImm_def shiftVar_def
    immFirst_def mulDiv_def regOf_def setReg_def
  by (auto split: if_splits sum.splits prod.splits
      simp: writeMemory_registers writeWord_registers
      dest!: readMemory_registers readWord_registers)

lemma executeInstruction_length:
  "length (registers (fst (executeInstruction i s))) = length (registers s)"
  by (auto simp: executeInstruction_def Let_def split: sum.splits prod.splits
      dest: effect_Inr_length effect_Inl_registers)

lemma executeInstruction_reg0:
  "registers s \<noteq> [] \<Longrightarrow> registers s ! 0 = 0 \<Longrightarrow>
   registers (fst (executeInstruction i s)) ! 0 = 0"
  by (auto simp: executeInstruction_def Let_def split: sum.splits prod.splits
      dest: effect_Inr_length effect_Inl_registers)

lemma step_registers_cases:
  "registers (fst (step s)) = registers s \<or>
   registers (fst (step s)) =
     registers (fst (executeInstruction (instructions s ! instructionIndexOf (PC s)) s))"
  by (cases "executeInstruction (instructions s ! instructionIndexOf (PC s)) s")
     (auto simp: step_def Let_def logDebug_def split: sum.splits)

lemma step_length: "length (registers (fst (step s))) = length (registers s)"
  using step_registers_cases[of s] by (auto simp: executeInstruction_length)

lemma step_reg0:
  "registers s \<noteq> [] \<Longrightarrow> registers s ! 0 = 0 \<Longrightarrow> registers (fst (step s)) ! 0 = 0"
  using step_registers_cases[of s] by (auto simp: executeInstruction_reg0)

lemma loadProgram_registers: "registers (fst (loadProgram t s)) = registers s"
  by (simp add: loadProgram_def split: prod.splits option.splits)

lemma stepN_register_zero:
  "registers s \<noteq> [] \<Longrightarrow> registers s ! 0 = 0 \<Longrightarrow>
   length (registers (stepN n s)) = length (registers s) \<and> registers (stepN n s) ! 0 = 0"
proof (induction n arbitrary: s)
  case 0
  then show ?case by simp
next
  case (Suc n)
  let ?t = "fst (step s)"
  have len: "length (registers ?t) = length (registers s)" by (rule step_length)
  with Suc.prems(1) have ne: "registers ?t \<noteq> []" by auto
  have z: "registers ?t ! 0 = 0" using Suc.prems by (rule step_reg0)
  from Suc.IH[OF ne z] len show ?case by simp
qed

section \<open>Lemmas for the failure of a load\<close>

lemma secondPass_failure:
  "secondPass ls pc i ps acc = (Some e, ins) \<Longrightarrow>
   \<exists>k ws. k < length ps \<and> length ws = k \<and>
     (\<forall>j<k. encodeAt ls (i + j) (fst (ps ! j)) (fst (snd (ps ! j))) = Inr (ws ! j)) \<and>
     encodeAt ls (i + k) (fst (ps ! k)) (fst (snd (ps ! k))) = Inl e \<and>
     ins = acc @ map (\<lambda>j. storedInstruction (ps ! j) (ws ! j) pc (i + j)) [0..<k]"
proof (induction ps arbitrary: i acc)
  case Nil
  then show ?case by simp
next
  case (Cons p ps)
  obtain mn as lbl where p: "p = (mn, as, lbl)" by (cases p)
  show ?case
  proof (cases "encodeAt ls i mn as")
    case (Inl e')
    with Cons.prems p have "e' = e" "ins = acc" by simp_all
    with Inl p show ?thesis by (intro exI[of _ 0] exI[of _ "[]"]) simp
  next
    case (Inr w)
    have new: "\<lparr>mnemonic = mn, args = as, label = lbl, binary = w, address = pc + int i * 4\<rparr>
                 = storedInstruction p w pc i"
      by (simp add: storedInstruction_def p)
    from Inr Cons.prems p have
      "secondPass ls pc (i + 1) ps (acc @ [storedInstruction p w pc i]) = (Some e, ins)"
      by (simp add: new)
    from Cons.IH[OF this] obtain k ws where k: "k < length ps" "length ws = k"
      "\<forall>j<k. encodeAt ls (i + 1 + j) (fst (ps ! j)) (fst (snd (ps ! j))) = Inr (ws ! j)"
      "encodeAt ls (i + 1 + k) (fst (ps ! k)) (fst (snd (ps ! k))) = Inl e"
      "ins = (acc @ [storedInstruction p w pc i])
               @ map (\<lambda>j. storedInstruction (ps ! j) (ws ! j) pc (i + 1 + j)) [0..<k]"
      by blast
    have a: "\<forall>j<Suc k. encodeAt ls (i + j) (fst ((p # ps) ! j)) (fst (snd ((p # ps) ! j)))
               = Inr ((w # ws) ! j)"
    proof (intro allI impI)
      fix j assume "j < Suc k"
      then show "encodeAt ls (i + j) (fst ((p # ps) ! j)) (fst (snd ((p # ps) ! j)))
                   = Inr ((w # ws) ! j)"
        using k(3) Inr p by (cases j) simp_all
    qed
    have b: "ins = acc @ map (\<lambda>j. storedInstruction ((p # ps) ! j) ((w # ws) ! j) pc (i + j))
                           [0..<Suc k]"
      unfolding k(5) by (simp add: map_upt_Suc del: upt_Suc)
    show ?thesis
      using k(1,2,4) a b
      by (intro exI[of _ "Suc k"] exI[of _ "w # ws"]) simp
  qed
qed

section \<open>Lemmas for loads and stores\<close>

lemma ucast_mask8: "(ucast (x AND 0xff :: u32) :: u8) = ucast x"
proof -
  have m: "(0xff :: u32) = mask 8" by (simp add: mask_eq_exp_minus_1)
  show ?thesis unfolding m by (rule bit_word_eqI) (auto simp: bit_simps)
qed

lemma bit_int16:
  assumes "- 32768 \<le> (off :: int)" "off \<le> 32767"
  shows "bit off n = bit off (min 15 n)"
proof -
  have "signed_take_bit 15 off = off"
    using assms by (intro signed_take_bit_int_eq_self) simp_all
  moreover have "bit (signed_take_bit 15 off) n = bit off (min 15 n)"
    by (simp add: bit_signed_take_bit_iff)
  ultimately show ?thesis by simp
qed

lemma signExtend16_in_range:
  assumes "- 32768 \<le> off" "off \<le> 32767"
  shows "signExtend16 (word_of_int off) = word_of_int off"
proof (rule bit_word_eqI)
  fix n assume n: "n < LENGTH(32)"
  have e1: "bit (signExtend16 (word_of_int off :: u32)) n = bit off (if 16 \<le> n then 15 else n)"
    using n by (auto simp: signExtend16_def bit_simps)
  have e2: "(if 16 \<le> n then 15 else n) = min 15 n" by auto
  have e3: "bit off (min 15 n) = bit off n" using bit_int16[OF assms, of n] by simp
  have e4: "bit (word_of_int off :: u32) n = bit off n" using n by (simp add: bit_simps)
  show "bit (signExtend16 (word_of_int off :: u32)) n = bit (word_of_int off :: u32) n"
    unfolding e1 e2 e3 e4 ..
qed

lemma numberOf_exact: "\<bar>n\<bar> < 2 ^ 53 \<Longrightarrow> numberOf n = Some n"
  by (simp add: numberOf_def)

lemma effectiveAddress_in_range:
  assumes "parseRegisterStr r = Inr bn" "- 32768 \<le> off" "off \<le> 32767"
  shows "effectiveAddress s (Some (OffsetReg (Some off) r))
           = Inr (registers s ! bn + signExtend16 (word_of_int off))"
proof -
  have "0 \<le> uint (registers s ! bn)" "uint (registers s ! bn) < 4294967296"
    using uint_bounded[of "registers s ! bn"] by simp_all
  with assms(2,3) have "\<bar>uint (registers s ! bn) + off\<bar> < 9007199254740992" by linarith
  then have "\<bar>uint (registers s ! bn) + off\<bar> < 2 ^ 53" by simp
  then have "numberOf (uint (registers s ! bn) + off) = Some (uint (registers s ! bn) + off)"
    by (rule numberOf_exact)
  then show ?thesis
    using assms(1)
    by (simp add: effectiveAddress_def bindE_def toInt32_def signExtend16_in_range[OF assms(2,3)])
qed

lemma readMemory_byte: "fst (readMemory s a) = byteAt (memory s) a"
  by (simp add: readMemory_def byteAt_def Let_def)

lemma readMemory_memory: "memory (snd (readMemory s a)) = memory s"
  by (simp add: readMemory_def Let_def)

lemma readMemory_regs: "registers (snd (readMemory s a)) = registers s"
  by (simp add: readMemory_def Let_def)

lemma writeMemory_memory: "memory (writeMemory s a v) = storeByte (memory s) a (ucast v)"
  by (simp add: writeMemory_def storeByte_def Let_def ucast_mask8)

lemma readWord_word: "fst (readWord s a) = wordAt (memory s) (a AND NOT 3)"
  by (simp add: readWord_def wordAt_def Let_def split_beta readMemory_byte readMemory_memory)

lemma readWord_memory: "memory (snd (readWord s a)) = memory s"
  by (simp add: readWord_def Let_def split_beta readMemory_memory)

lemma readWord_regs: "registers (snd (readWord s a)) = registers s"
  by (simp add: readWord_def Let_def split_beta readMemory_regs)

lemma writeWord_memory: "memory (writeWord s a v) = storeWord (memory s) (a AND NOT 3) v"
  by (simp add: writeWord_def storeWord_def Let_def writeMemory_memory ucast_mask8)

section \<open>Running the step-cap program\<close>

lemma cap_loaded:
  "loadProgram stepCapProgram constructor =
     (constructor\<lparr>instructions := capInstructions, labels := [''loop'' \<mapsto> 3], loaded := True\<rparr>,
      Inr 6)"
  by (simp add: parse_defs encode_defs constructor_def stepCapProgram_def capInstructions_def
        numeral_3_eq_3)

lemma cap_start: "inCapProgram (fst (loadProgram stepCapProgram constructor)) 0 0 0x00400000 0"
  unfolding cap_loaded by (simp add: inCapProgram_def constructor_def)

lemma signed_drop_bit_minus_one: "signed_drop_bit 16 (NOT (mask 16) :: u32) = - 1"
  by (rule bit_word_eqI) (auto simp: bit_simps)

lemmas cap_defs = inCapProgram_def capInstructions_def exec_defs parse_defs bindE_def
  signed_drop_bit_minus_one

lemma cap_step0:
  "inCapProgram s v0 t0 0x00400000 n \<Longrightarrow>
   \<exists>s'. step s = (s', StepSuccess) \<and> inCapProgram s' 10 t0 0x00400004 (n + 1)"
  by (simp add: cap_defs)

lemma cap_step1:
  "inCapProgram s v0 t0 0x00400004 n \<Longrightarrow>
   \<exists>s'. step s = (s', StepSuccess) \<and> inCapProgram s' v0 4998 0x00400008 (n + 1)"
  by (simp add: cap_defs)

lemma cap_step2:
  "inCapProgram s v0 t0 0x00400008 n \<Longrightarrow>
   \<exists>s'. step s = (s', StepSuccess) \<and> inCapProgram s' v0 t0 0x0040000C (n + 1)"
  by (simp add: cap_defs)

lemma cap_step3:
  "inCapProgram s v0 t0 0x0040000C n \<Longrightarrow>
   \<exists>s'. step s = (s', StepSuccess) \<and> inCapProgram s' v0 (t0 - 1) 0x00400010 (n + 1)"
  by (simp add: cap_defs)

lemma cap_step4:
  "inCapProgram s v0 t0 0x00400010 n \<Longrightarrow>
   \<exists>s'. step s = (s', StepSuccess) \<and>
        inCapProgram s' v0 t0 (if t0 \<noteq> 0 then 0x0040000C else 0x00400014) (n + 1)"
  by (simp add: cap_defs)

lemma cap_step5:
  "inCapProgram s 10 t0 0x00400014 n \<Longrightarrow>
   \<exists>s'. step s = (s', StepSuccess) \<and> halted s' \<and> instructionCount s' = n + 1"
  by (simp add: cap_defs)

lemma runLoop_step:
  "\<not> halted s \<Longrightarrow> n < maxSteps \<Longrightarrow> step s = (s', StepSuccess) \<Longrightarrow>
   runLoop n s = runLoop (n + 1) s'"
  by (subst runLoop.simps) simp

lemma runLoop_halted_at_cap: "halted s \<Longrightarrow> runLoop maxSteps s = (s, MaximumStepLimitReached)"
  by (subst runLoop.simps) simp

lemma inCapProgram_running: "inCapProgram s v0 t0 pc n \<Longrightarrow> \<not> halted s"
  by (simp add: inCapProgram_def)

lemma cap_iteration:
  assumes inv: "inCapProgram s 10 w 0x0040000C n" and n: "n + 2 \<le> maxSteps"
  shows "\<exists>s'. runLoop n s = runLoop (n + 2) s' \<and>
              inCapProgram s' 10 (w - 1) (if w - 1 \<noteq> 0 then 0x0040000C else 0x00400014) (n + 2)"
proof -
  from cap_step3[OF inv] obtain s1 where
    s1: "step s = (s1, StepSuccess)" "inCapProgram s1 10 (w - 1) 0x00400010 (n + 1)" by blast
  from cap_step4[OF s1(2)] obtain s2 where
    s2: "step s1 = (s2, StepSuccess)"
        "inCapProgram s2 10 (w - 1) (if w - 1 \<noteq> 0 then 0x0040000C else 0x00400014) (n + 1 + 1)"
    by blast
  have "runLoop n s = runLoop (n + 1) s1"
    using inCapProgram_running[OF inv] n s1(1) by (intro runLoop_step) simp_all
  also have "\<dots> = runLoop (n + 1 + 1) s2"
    using inCapProgram_running[OF s1(2)] n s2(1) by (intro runLoop_step) simp_all
  finally show ?thesis using s2(2) by (intro exI[of _ s2]) simp
qed

lemma cap_loop:
  "inCapProgram s 10 w 0x0040000C n \<Longrightarrow> unat w = Suc k \<Longrightarrow> n + 2 * Suc k \<le> maxSteps \<Longrightarrow>
   \<exists>s'. runLoop n s = runLoop (n + 2 * Suc k) s' \<and>
        inCapProgram s' 10 0 0x00400014 (n + 2 * Suc k)"
proof (induction k arbitrary: s w n)
  case 0
  from \<open>unat w = Suc 0\<close> have "unat w = unat (1 :: u32)" by simp
  then have w: "w = 1" by (simp only: unat_eq_nat_uint nat_int word_uint_eq_iff [symmetric]) (simp add: word_eq_iff_unsigned[where ?'a = nat])
  from cap_iteration[OF 0(1)] 0(3) w show ?case by simp
next
  case (Suc k)
  from \<open>unat w = Suc (Suc k)\<close> have w0: "w \<noteq> 0" by auto
  then have u: "unat (w - 1) = Suc k" using \<open>unat w = Suc (Suc k)\<close>
    by (simp add: unat_minus_one)
  then have w1: "w - 1 \<noteq> 0" by auto
  from cap_iteration[OF Suc.prems(1)] Suc.prems(3) w1 obtain s2 where
    s2: "runLoop n s = runLoop (n + 2) s2" "inCapProgram s2 10 (w - 1) 0x0040000C (n + 2)"
    by auto
  from Suc.IH[OF s2(2) u] Suc.prems(3) obtain s' where
    "runLoop (n + 2) s2 = runLoop (n + 2 + 2 * Suc k) s'"
    "inCapProgram s' 10 0 0x00400014 (n + 2 + 2 * Suc k)" by auto
  with s2(1) show ?case by (intro exI[of _ s']) simp
qed

section \<open>The claims\<close>

text \<open>
  C1. The claim: \<open>sub $d, $s, $t\<close> writes the value of the second operand register minus the
  value of the third into the destination. The code subtracts the other way round: after
  \<open>$t1 = 5\<close>, \<open>$t2 = 3\<close>, the instruction \<open>sub $t0, $t1, $t2\<close> leaves \<open>$t0 = 3 - 5 = 0xFFFFFFFE\<close>,
  not 2.
\<close>

theorem sub_subtracts_second_operand_from_third:
  "map (\<lambda>r. registers (stepN 3 (fst (loadProgram subProgram constructor))) ! r) [9, 10, 8]
     = [5, 3, 0xFFFFFFFE]"
  by (simp add: run_defs subProgram_def)

text \<open>
  C2. The claim: encoding reproduces the canonical MIPS word, \<open>add $t0, $t1, $t2\<close> giving
  \<open>0x012A4020\<close>, \<open>addi $t0, $zero, 1\<close> giving \<open>0x20080001\<close> and \<open>j 0x00400000\<close> giving
  \<open>0x08100000\<close>. The code encodes the \<open>add\<close> with the two source registers exchanged
  (\<open>0x01494020\<close>), encodes the \<open>addi\<close> as claimed, and rejects the \<open>j\<close> with a numeric target
  as an undefined label.
\<close>

theorem encoding_examples:
  "map binary (instructions (fst (loadProgram ''add $t0, $t1, $t2'' constructor))) = [0x01494020] \<and>
   map binary (instructions (fst (loadProgram ''addi $t0, $zero, 1'' constructor))) = [0x20080001] \<and>
   loadProgram ''j 0x00400000'' constructor = (constructor, Inl UndefinedLabel)"
  by (simp add: parse_defs encode_defs constructor_def)

text \<open>
  C3. For every program text and every number of steps, register 0 reads as 0 after the
  steps, from a freshly constructed simulator on which the text was loaded. This covers
  instructions that name register 0 as their destination, steps that commit nothing, and
  texts that fail to load.
\<close>

theorem register_zero_invariant:
  "registers (stepN n (fst (loadProgram text constructor))) ! 0 = 0"
proof -
  have r: "registers (fst (loadProgram text constructor)) = replicate 32 0"
    by (simp add: loadProgram_registers constructor_def)
  have "registers (fst (loadProgram text constructor)) \<noteq> []"
    unfolding r by simp
  moreover have "registers (fst (loadProgram text constructor)) ! 0 = 0"
    unfolding r by simp
  ultimately show ?thesis using stepN_register_zero by blast
qed

text \<open>
  The invariant at an instruction whose destination is register 0: the instruction commits
  (the instruction count is 1) and register 0 still reads as 0.
\<close>

theorem register_zero_invariant_witness:
  "instructionCount (stepN 1 (fst (loadProgram ''addi $zero, $zero, 5'' constructor))) = 1 \<and>
   registers (stepN 1 (fst (loadProgram ''addi $zero, $zero, 5'' constructor))) ! 0 = 0"
  using register_zero_invariant[of 1 "''addi $zero, $zero, 5''"]
  by (simp add: run_defs)

text \<open>
  C4. The claim: a failed load leaves the instruction stream, the symbol table and all other
  state untouched. The code clears \<open>this.instructions\<close> before it encodes and pushes each
  record as it goes, so a failed load does change the instruction stream. What does hold:
  when \<open>loadProgram\<close> throws, every field but \<open>instructions\<close> is as before the call, and
  \<open>instructions\<close> holds exactly the records, with their words and addresses, of the
  instructions of the new text before index \<open>k\<close>, where \<open>k\<close> is the first instruction that
  fails to encode: every instruction before it encodes (to \<open>ws ! j\<close>), and the error thrown is
  the one of instruction \<open>k\<close>.
\<close>

theorem load_failure_keeps_all_but_instructions:
  assumes "snd (loadProgram text s) = Inl e"
  shows "fst (loadProgram text s) = s\<lparr>instructions := instructions (fst (loadProgram text s))\<rparr> \<and>
         (\<exists>k ws. k < length (snd (firstPassOf text)) \<and> length ws = k \<and>
            (\<forall>j<k. encodeAt (fst (firstPassOf text)) j
                      (fst (snd (firstPassOf text) ! j))
                      (fst (snd (snd (firstPassOf text) ! j))) = Inr (ws ! j)) \<and>
            encodeAt (fst (firstPassOf text)) k
              (fst (snd (firstPassOf text) ! k))
              (fst (snd (snd (firstPassOf text) ! k))) = Inl e \<and>
            instructions (fst (loadProgram text s)) =
              map (\<lambda>j. storedInstruction (snd (firstPassOf text) ! j) (ws ! j) (PC s) j) [0..<k])"
proof -
  obtain ls program where fp: "firstPass (splitLines text) 0 Map.empty [] = (ls, program)"
    by (cases "firstPass (splitLines text) 0 Map.empty []")
  obtain err ins where sp: "secondPass ls (PC s) 0 program [] = (err, ins)"
    by (cases "secondPass ls (PC s) 0 program []")
  from assms fp sp have err: "err = Some e"
    by (cases err) (simp_all add: loadProgram_def)
  with fp sp have st: "fst (loadProgram text s) = s\<lparr>instructions := ins\<rparr>"
    by (simp add: loadProgram_def)
  from secondPass_failure[OF sp[unfolded err]] obtain k ws where
    "k < length program" "length ws = k"
    "\<forall>j<k. encodeAt ls j (fst (program ! j)) (fst (snd (program ! j))) = Inr (ws ! j)"
    "encodeAt ls k (fst (program ! k)) (fst (snd (program ! k))) = Inl e"
    "ins = map (\<lambda>j. storedInstruction (program ! j) (ws ! j) (PC s) j) [0..<k]"
    by auto
  then show ?thesis
    unfolding st firstPassOf_def fp
    by (intro conjI exI[of _ k] exI[of _ ws]) simp_all
qed

text \<open>
  The theorem at a load that fails on its second instruction: \<open>foo\<close> is no mnemonic. The
  simulator that had \<open>syscall\<close> loaded keeps everything but its instruction stream, which now
  holds the record of the \<open>nop\<close> before \<open>foo\<close> and nothing of what follows.
\<close>

theorem load_failure_keeps_all_but_instructions_witness:
  "snd (loadProgram (''nop'' @ [CHR 0x0A] @ ''foo'' @ [CHR 0x0A] @ ''nop'')
          (fst (loadProgram ''syscall'' constructor))) = Inl UnknownInstruction \<and>
   fst (loadProgram (''nop'' @ [CHR 0x0A] @ ''foo'' @ [CHR 0x0A] @ ''nop'')
          (fst (loadProgram ''syscall'' constructor)))
     = (fst (loadProgram ''syscall'' constructor))
         \<lparr>instructions := [\<lparr>mnemonic = ''nop'', args = [], label = None, binary = 0,
                              address = 0x00400000\<rparr>]\<rparr>"
proof -
  let ?t = "''nop'' @ [CHR 0x0A] @ ''foo'' @ [CHR 0x0A] @ ''nop''"
  let ?s = "fst (loadProgram ''syscall'' constructor)"
  have f: "snd (loadProgram ?t ?s) = Inl UnknownInstruction"
    by (simp add: parse_defs encode_defs)
  have i: "instructions (fst (loadProgram ?t ?s)) =
             [\<lparr>mnemonic = ''nop'', args = [], label = None, binary = 0, address = 0x00400000\<rparr>]"
    by (simp add: parse_defs encode_defs constructor_def)
  from load_failure_keeps_all_but_instructions[OF f] have
    "fst (loadProgram ?t ?s) = ?s\<lparr>instructions := instructions (fst (loadProgram ?t ?s))\<rparr>"
    by blast
  with f i show ?thesis by simp
qed

text \<open>
  The claim fails on this input: on a simulator that has \<open>nop\<close> loaded, the load of \<open>foo\<close>
  throws, and the stream that held the \<open>nop\<close> before the call is empty after it.
\<close>

theorem load_not_atomic_counterexample:
  "snd (loadProgram ''foo'' (fst (loadProgram ''nop'' constructor))) = Inl UnknownInstruction \<and>
   instructions (fst (loadProgram ''nop'' constructor)) =
     [\<lparr>mnemonic = ''nop'', args = [], label = None, binary = 0, address = 0x00400000\<rparr>] \<and>
   instructions (fst (loadProgram ''foo'' (fst (loadProgram ''nop'' constructor)))) = []"
  by (simp add: parse_defs encode_defs constructor_def)

text \<open>
  C5. The claim: \<open>lb\<close> sign-extends the loaded byte from bit 7, so a byte \<open>0x80\<close> gives
  \<open>0xFFFFFF80\<close>. The code passes the byte through \<open>signExtend16\<close>, which extends from bit 15
  and leaves a byte as it is: after \<open>sb\<close> has stored \<open>0x80\<close> at address 256, \<open>lb\<close> from that
  address gives \<open>0x00000080\<close>.
\<close>

theorem lb_zero_extends:
  "memory (stepN 3 (fst (loadProgram lbProgram constructor))) ! 256 = 0x80 \<and>
   registers (stepN 3 (fst (loadProgram lbProgram constructor))) ! 8 = 0x00000080"
  by (simp add: run_defs lbProgram_def)

text \<open>
  C6. The claim: \<open>div\<close> puts the truncating quotient in LO and the remainder in HI, with
  \<open>rs = LO * rt + HI\<close>. The code takes \<open>Math.floor\<close> of the quotient but the truncating
  remainder: for \<open>-7\<close> divided by 2 it leaves \<open>LO = -4\<close> and \<open>HI = -1\<close>, and
  \<open>-4 * 2 + -1 = -9\<close>.
\<close>

theorem div_floors_quotient:
  "map (\<lambda>r. registers (stepN 3 (fst (loadProgram divProgram constructor))) ! r) [9, 10]
     = [0xFFFFFFF9, 2] \<and>
   LO (stepN 3 (fst (loadProgram divProgram constructor))) = 0xFFFFFFFC \<and>
   HI (stepN 3 (fst (loadProgram divProgram constructor))) = Some 0xFFFFFFFF"
  by (simp add: run_defs divProgram_def)

text \<open>
  C7. The claim: \<open>run\<close> returns success when the program halts within 10,000 steps, and
  reports the step limit only when 10,000 steps complete without a halt, \<open>halted\<close> staying
  false. The code tests only the step counter after the loop: \<open>stepCapProgram\<close> halts by
  \<open>syscall\<close> with \<open>$v0 = 10\<close> on its 10,000th instruction, and \<open>run\<close> returns the step-limit
  error with \<open>halted\<close> true.
\<close>

theorem halt_on_last_allowed_step_reported_as_limit:
  "snd (loadProgram stepCapProgram constructor) = Inr 6 \<and>
   snd (run (fst (loadProgram stepCapProgram constructor))) = MaximumStepLimitReached \<and>
   halted (fst (run (fst (loadProgram stepCapProgram constructor)))) \<and>
   instructionCount (fst (run (fst (loadProgram stepCapProgram constructor)))) = 10000"
proof -
  let ?s0 = "fst (loadProgram stepCapProgram constructor)"
  have m: "maxSteps = 10000" by (simp add: maxSteps_def)
  note i0 = cap_start
  from cap_step0[OF i0] obtain s1 where
    s1: "step ?s0 = (s1, StepSuccess)" "inCapProgram s1 10 0 0x00400004 (0 + 1)" by blast
  from cap_step1[OF s1(2)] obtain s2 where
    s2: "step s1 = (s2, StepSuccess)" "inCapProgram s2 10 4998 0x00400008 (0 + 1 + 1)" by blast
  from cap_step2[OF s2(2)] obtain s3 where
    s3: "step s2 = (s3, StepSuccess)" "inCapProgram s3 10 4998 0x0040000C (0 + 1 + 1 + 1)" by blast
  have "runLoop 0 ?s0 = runLoop (0 + 1) s1"
    using inCapProgram_running[OF i0] s1(1) by (intro runLoop_step) (simp_all add: m)
  also have "\<dots> = runLoop (0 + 1 + 1) s2"
    using inCapProgram_running[OF s1(2)] s2(1) by (intro runLoop_step) (simp_all add: m)
  also have "\<dots> = runLoop (0 + 1 + 1 + 1) s3"
    using inCapProgram_running[OF s2(2)] s3(1) by (intro runLoop_step) (simp_all add: m)
  finally have r3: "runLoop 0 ?s0 = runLoop 3 s3" by (simp add: numeral_3_eq_3)
  have u: "unat (4998 :: u32) = Suc 4997" by simp
  from s3(2) have i3: "inCapProgram s3 10 4998 0x0040000C 3" by (simp add: numeral_3_eq_3)
  from cap_loop[OF i3 u] obtain s4 where
    s4: "runLoop 3 s3 = runLoop 9999 s4" "inCapProgram s4 10 0 0x00400014 9999"
    by (auto simp: m)
  from cap_step5[OF s4(2)] obtain s5 where
    s5: "step s4 = (s5, StepSuccess)" "halted s5" "instructionCount s5 = 9999 + 1" by blast
  have "runLoop 9999 s4 = runLoop (9999 + 1) s5"
    using inCapProgram_running[OF s4(2)] s5(1) by (intro runLoop_step) (simp_all add: m)
  then have "runLoop 9999 s4 = runLoop 10000 s5" by simp
  also have "\<dots> = (s5, MaximumStepLimitReached)"
    using runLoop_halted_at_cap[OF s5(2)] by (simp add: m)
  finally have "runLoop 0 ?s0 = (s5, MaximumStepLimitReached)" using r3 s4(1) by simp
  moreover have "loaded ?s0" "\<not> halted ?s0" using i0 by (simp_all add: inCapProgram_def)
  ultimately have "run ?s0 = (s5, MaximumStepLimitReached)" by (simp add: run_def)
  with s5 show ?thesis by (simp add: cap_loaded)
qed

text \<open>So the run that halted within the limit is not reported as a success.\<close>

theorem halt_on_last_allowed_step_reported_as_limit_witness:
  "snd (run (fst (loadProgram stepCapProgram constructor))) \<noteq> RunSuccess 10000"
  using halt_on_last_allowed_step_reported_as_limit by simp

text \<open>
  C8. The claim: a freshly constructed simulator has all 32 registers, every memory byte,
  HI and LO equal to 0 and PC equal to \<open>0x00400000\<close>. The constructor sets the registers, the
  memory, LO and PC so, but never assigns HI, which stays \<open>undefined\<close> until \<open>reset\<close> or a
  multiplication or division assigns it.
\<close>

theorem constructor_leaves_HI_undefined:
  "registers constructor = replicate 32 0 \<and> memory constructor = replicate 0x10000 0 \<and>
   LO constructor = 0 \<and> PC constructor = 0x00400000 \<and>
   HI constructor = None \<and> HI (reset constructor) = Some 0"
  by (simp add: constructor_def reset_def)

text \<open>
  C9. The claim: after a successful load the stored address of instruction \<open>i\<close> is
  \<open>0x00400000 + 4 * i\<close> whatever the program counter was. The code takes \<open>this.PC\<close> as the base:
  after one step of a loaded \<open>nop\<close> the program counter is \<open>0x00400004\<close>, and a second load
  stores that as the address of instruction 0.
\<close>

theorem load_address_follows_PC:
  "PC (stepN 1 (fst (loadProgram ''nop'' constructor))) = 0x00400004 \<and>
   loadProgram ''nop'' (stepN 1 (fst (loadProgram ''nop'' constructor))) =
     ((stepN 1 (fst (loadProgram ''nop'' constructor)))
        \<lparr>instructions := [\<lparr>mnemonic = ''nop'', args = [], label = None, binary = 0,
                             address = 0x00400004\<rparr>],
         cycle := 0, instructionCount := 0\<rparr>,
      Inr 1)"
  by (simp add: run_defs)

text \<open>
  C10. The claim: \<open>lh\<close> and \<open>sh\<close> at an address that is not halfword-aligned mask the low
  address bit and access the aligned halfword, as the word accesses mask the low 2 bits. The
  code masks nothing for halfwords. What does hold, for an instruction with a register
  operand and an \<open>offset(base)\<close> operand whose offset fits the signed 16-bit field, with the
  effective address \<open>rs + signExt16(offset)\<close>: \<open>lh\<close> and \<open>sh\<close> raise no exception and access the
  byte at the effective address and the byte after it, whatever the low address bit is;
  \<open>lw\<close> and \<open>sw\<close> raise no exception and access the word at the effective address with its
  low 2 bits masked. A byte outside the memory array reads as 0 and a store to it is dropped.
\<close>

theorem halfword_access_not_aligned:
  assumes "args i = [Str t, OffsetReg (Some off) r]"
      and "parseRegisterStr t = Inr tn" and "parseRegisterStr r = Inr bn"
      and "- 32768 \<le> off" and "off \<le> 32767"
  shows "(mnemonic i = ''lh'' \<longrightarrow>
            (\<exists>res. snd (executeInstruction i s) = Inr res) \<and>
            registers (fst (executeInstruction i s)) =
              (registers s)[tn := signExtend16
                  (push_bit 8 (ucast (byteAt (memory s)
                                        (registers s ! bn + signExtend16 (word_of_int off))))
                   OR ucast (byteAt (memory s)
                               (registers s ! bn + signExtend16 (word_of_int off) + 1))),
                0 := 0] \<and>
            memory (fst (executeInstruction i s)) = memory s) \<and>
         (mnemonic i = ''sh'' \<longrightarrow>
            (\<exists>res. snd (executeInstruction i s) = Inr res) \<and>
            memory (fst (executeInstruction i s)) =
              storeByte
                (storeByte (memory s) (registers s ! bn + signExtend16 (word_of_int off))
                   (ucast (drop_bit 8 (registers s ! tn))))
                (registers s ! bn + signExtend16 (word_of_int off) + 1)
                (ucast (registers s ! tn)) \<and>
            registers (fst (executeInstruction i s)) = (registers s)[0 := 0]) \<and>
         (mnemonic i = ''lw'' \<longrightarrow>
            (\<exists>res. snd (executeInstruction i s) = Inr res) \<and>
            registers (fst (executeInstruction i s)) =
              (registers s)[tn := wordAt (memory s)
                  ((registers s ! bn + signExtend16 (word_of_int off)) AND NOT 3),
                0 := 0] \<and>
            memory (fst (executeInstruction i s)) = memory s) \<and>
         (mnemonic i = ''sw'' \<longrightarrow>
            (\<exists>res. snd (executeInstruction i s) = Inr res) \<and>
            memory (fst (executeInstruction i s)) =
              storeWord (memory s)
                ((registers s ! bn + signExtend16 (word_of_int off)) AND NOT 3)
                (registers s ! tn) \<and>
            registers (fst (executeInstruction i s)) = (registers s)[0 := 0])"
proof -
  have ea: "effectiveAddress s (argAt (args i) (Suc 0))
              = Inr (registers s ! bn + signExtend16 (word_of_int off))"
    using effectiveAddress_in_range[OF assms(3,4,5)] assms(1) by (simp add: argAt_def)
  have pr: "parseRegister (argAt (args i) 0) = Inr tn"
    using assms(1,2) by (simp add: argAt_def parseRegister_def)
  show ?thesis
    by (simp add: executeInstruction_def effect_def Let_def thrownAt_def bindE_def ea pr regOf_def
          setReg_def split_beta readMemory_byte readMemory_memory readMemory_regs
          writeMemory_memory writeMemory_registers readWord_word readWord_memory readWord_regs
          writeWord_memory writeWord_registers ucast_mask8)
qed

text \<open>
  The theorem at odd addresses: \<open>sh $t0, 261($zero)\<close> with \<open>$t0 = 0x1234\<close> stores at 261 and
  262, \<open>lh $t0, 257($zero)\<close> reads the bytes at 257 and 258, and \<open>sw $t0, 261($zero)\<close> stores at
  260 to 263.
\<close>

theorem halfword_access_not_aligned_witness:
  "map (\<lambda>a. memory (fst (executeInstruction
      \<lparr>mnemonic = ''sh'', args = [Str ''$t0'', OffsetReg (Some 261) ''$zero''], label = None,
        binary = 0xA4080105, address = 0x00400014\<rparr>
      (constructor\<lparr>registers := (replicate 32 0)[8 := 0x1234]\<rparr>))) ! a) [260, 261, 262]
     = [0, 0x12, 0x34] \<and>
   registers (fst (executeInstruction
      \<lparr>mnemonic = ''lh'', args = [Str ''$t0'', OffsetReg (Some 257) ''$zero''], label = None,
        binary = 0x84080101, address = 0x00400010\<rparr>
      (constructor\<lparr>memory := (replicate 0x10000 0)[257 := 0x12, 258 := 0x34]\<rparr>)))
     = (replicate 32 0)[8 := 0x1234, 0 := 0] \<and>
   map (\<lambda>a. memory (fst (executeInstruction
      \<lparr>mnemonic = ''sw'', args = [Str ''$t0'', OffsetReg (Some 261) ''$zero''], label = None,
        binary = 0xAC080105, address = 0x00400018\<rparr>
      (constructor\<lparr>registers := (replicate 32 0)[8 := 0x12345678]\<rparr>))) ! a)
      [260, 261, 262, 263, 264] = [0x12, 0x34, 0x56, 0x78, 0]"
  using
    halfword_access_not_aligned[of
      "\<lparr>mnemonic = ''sh'', args = [Str ''$t0'', OffsetReg (Some 261) ''$zero''], label = None,
         binary = 0xA4080105, address = 0x00400014\<rparr>"
      "''$t0''" 261 "''$zero''" 8 0
      "constructor\<lparr>registers := (replicate 32 0)[8 := 0x1234]\<rparr>"]
    halfword_access_not_aligned[of
      "\<lparr>mnemonic = ''lh'', args = [Str ''$t0'', OffsetReg (Some 257) ''$zero''], label = None,
         binary = 0x84080101, address = 0x00400010\<rparr>"
      "''$t0''" 257 "''$zero''" 8 0
      "constructor\<lparr>memory := (replicate 0x10000 0)[257 := 0x12, 258 := 0x34]\<rparr>"]
    halfword_access_not_aligned[of
      "\<lparr>mnemonic = ''sw'', args = [Str ''$t0'', OffsetReg (Some 261) ''$zero''], label = None,
         binary = 0xAC080105, address = 0x00400018\<rparr>"
      "''$t0''" 261 "''$zero''" 8 0
      "constructor\<lparr>registers := (replicate 32 0)[8 := 0x12345678]\<rparr>"]
  by (simp add: parse_defs constructor_def byteAt_def storeByte_def storeWord_def signExtend16_def)

text \<open>
  The claim fails on \<open>halfwordProgram\<close>: with \<open>0x12\<close> at 257 and \<open>0x34\<close> at 258, \<open>lh\<close> from 257
  gives \<open>0x1234\<close> (the aligned halfword at 256 holds \<open>0x0012\<close>), and \<open>sh\<close> to 261 writes 261
  and 262 and leaves 260 alone.
\<close>

theorem halfword_unaligned_counterexample:
  "registers (stepN 6 (fst (loadProgram halfwordProgram constructor))) ! 8 = 0x1234 \<and>
   map (\<lambda>a. memory (stepN 6 (fst (loadProgram halfwordProgram constructor))) ! a)
     [256, 257, 258, 260, 261, 262] = [0, 0x12, 0x34, 0, 0x12, 0x34]"
  by (simp add: run_defs halfwordProgram_def)

end
